theory Spec2Isabelle
  imports Complex_Main "HOL-Library.Word"
begin

section \<open>The C3 tunnel of src/model/c3-tunnel.cc\<close>

text \<open>
  The tunnel is a class of the ns-3 simulator. Its control loop (\<open>Update\<close>,
  \<open>UpdateInfo\<close>, \<open>UpdateRate\<close>), its constructor and its attribute table are
  embedded below, each definition under the lines of c3-tunnel.cc it follows.

  Conventions of the embedding:
  \<^item> a C++ \<open>double\<close> is an IEEE 754 binary64 value (type \<open>double\<close> below) and every
    arithmetic operation rounds its exact result to the nearest double, ties to even, one
    operation at a time, as the SSE2 code of an x86-64 build does;
  \<^item> an ns-3 \<open>DataRate\<close> is its \<open>uint64_t\<close> bit rate, a \<open>64 word\<close>;
    \<open><\<close>, \<open>std::min\<close> and \<open>std::max\<close> on data rates compare these bit rates;
  \<^item> an ns-3 \<open>Time\<close> is an integer number of nanoseconds (the default resolution);
  \<^item> the objects behind the \<open>Ptr<C3Flow>\<close> handles live in a store \<open>heap\<close> from
    addresses to flow states, so that two table entries may name the same flow;
  \<^item> the calls the tunnel makes on its collaborators are appended to \<open>calls\<close>, oldest
    first, so that their order can be stated.
\<close>

subsection \<open>Double-precision arithmetic\<close>

text \<open>
  A double is a finite real, an infinity or NaN. The two zeros are not told apart: the
  only division whose divisor can be zero is the one by the seconds of an interval of
  zero ticks, which is \<open>+0.0\<close>, and a zero converts to the integer 0 whatever its sign.
  \<open>Finite x\<close> is meant for the reals \<open>x\<close> that binary64 represents; the operations are
  defined on every real.
\<close>

datatype double = Finite real | PInf | MInf | NaN

text \<open>Rounding of a real to the nearest integer, ties to the even one.\<close>

definition round_even :: "real \<Rightarrow> int" where
  "round_even x =
     (if x - of_int \<lfloor>x\<rfloor> < 1 / 2 then \<lfloor>x\<rfloor>
      else if 1 / 2 < x - of_int \<lfloor>x\<rfloor> then \<lfloor>x\<rfloor> + 1
      else if even \<lfloor>x\<rfloor> then \<lfloor>x\<rfloor> else \<lfloor>x\<rfloor> + 1)"

text \<open>
  The binary exponent of a nonzero real, not below that of the subnormal numbers, and
  the distance \<open>ulp\<close> between neighbouring doubles of that exponent (53 bits of
  precision).
\<close>

definition exponent :: "real \<Rightarrow> int" where
  "exponent x = max \<lfloor>log 2 \<bar>x\<bar>\<rfloor> (- 1022)"

definition ulp :: "real \<Rightarrow> real" where
  "ulp x = 2 powi (exponent x - 52)"

definition round_value :: "real \<Rightarrow> real" where
  "round_value x = (if x = 0 then 0 else of_int (round_even (x / ulp x)) * ulp x)"

text \<open>The rounded value overflows to an infinity from \<open>2 ^ 1024\<close> on.\<close>

definition round_to_double :: "real \<Rightarrow> double" where
  "round_to_double x =
     (if 2 ^ 1024 \<le> \<bar>round_value x\<bar> then (if 0 < x then PInf else MInf)
      else Finite (round_value x))"

fun dneg :: "double \<Rightarrow> double" where
  "dneg (Finite x) = Finite (- x)"
| "dneg PInf = MInf"
| "dneg MInf = PInf"
| "dneg NaN = NaN"

fun dadd :: "double \<Rightarrow> double \<Rightarrow> double" where
  "dadd (Finite x) (Finite y) = round_to_double (x + y)"
| "dadd NaN b = NaN"
| "dadd a NaN = NaN"
| "dadd PInf MInf = NaN"
| "dadd MInf PInf = NaN"
| "dadd PInf b = PInf"
| "dadd MInf b = MInf"
| "dadd a PInf = PInf"
| "dadd a MInf = MInf"

definition dsub :: "double \<Rightarrow> double \<Rightarrow> double" where
  "dsub a b = dadd a (dneg b)"

fun dmul :: "double \<Rightarrow> double \<Rightarrow> double" where
  "dmul (Finite x) (Finite y) = round_to_double (x * y)"
| "dmul NaN b = NaN"
| "dmul a NaN = NaN"
| "dmul (Finite x) PInf = (if x = 0 then NaN else if 0 < x then PInf else MInf)"
| "dmul (Finite x) MInf = (if x = 0 then NaN else if 0 < x then MInf else PInf)"
| "dmul PInf (Finite y) = (if y = 0 then NaN else if 0 < y then PInf else MInf)"
| "dmul MInf (Finite y) = (if y = 0 then NaN else if 0 < y then MInf else PInf)"
| "dmul PInf PInf = PInf"
| "dmul PInf MInf = MInf"
| "dmul MInf PInf = MInf"
| "dmul MInf MInf = PInf"

fun ddiv :: "double \<Rightarrow> double \<Rightarrow> double" where
  "ddiv (Finite x) (Finite y) =
     (if y = 0 then (if x = 0 then NaN else if 0 < x then PInf else MInf)
      else round_to_double (x / y))"
| "ddiv NaN b = NaN"
| "ddiv a NaN = NaN"
| "ddiv (Finite x) PInf = Finite 0"
| "ddiv (Finite x) MInf = Finite 0"
| "ddiv PInf (Finite y) = (if 0 \<le> y then PInf else MInf)"
| "ddiv MInf (Finite y) = (if 0 \<le> y then MInf else PInf)"
| "ddiv PInf PInf = NaN"
| "ddiv PInf MInf = NaN"
| "ddiv MInf PInf = NaN"
| "ddiv MInf MInf = NaN"

text \<open>The conversion of an unsigned integer to double.\<close>

definition double_of_nat :: "nat \<Rightarrow> double" where
  "double_of_nat n = round_to_double (real n)"

subsection \<open>Value types of ns-3\<close>

type_synonym DataRate = "64 word"

type_synonym Time = int

type_synonym addr = nat

text \<open>
  \<open>Time::GetSeconds\<close>, a function of the ns-3 library: the duration in seconds, as a
  double. The embedding takes the double nearest to the tick count over \<open>10 ^ 9\<close>; the
  seconds of a zero duration are zero. The general theorems below hold for the quotient
  by whatever double \<open>GetSeconds\<close> returns; only the evaluated instances use its
  value.
\<close>

definition GetSeconds :: "Time \<Rightarrow> double" where
  "GetSeconds d = round_to_double (real_of_int d / 1000000000)"

text \<open>\<open>Time::Max ()\<close>, the largest value of the 64-bit tick count.\<close>

definition Time_Max :: Time where
  "Time_Max = 2 ^ 63 - 1"

text \<open>
  \<open>DataRate ("10Mbps").GetBitRate ()\<close>, \<open>DataRate ("1000Mbps")\<close>,
  \<open>DataRate ("1Mbps")\<close>, \<open>DataRate ("500Mbps")\<close> and \<open>Time ("100us")\<close>: the literals
  of the source, parsed.
\<close>

definition DataRate_10Mbps :: DataRate where
  "DataRate_10Mbps = 10000000"

definition DataRate_1000Mbps :: DataRate where
  "DataRate_1000Mbps = 1000000000"

definition DataRate_1Mbps :: DataRate where
  "DataRate_1Mbps = 1000000"

definition DataRate_500Mbps :: DataRate where
  "DataRate_500Mbps = 500000000"

definition Time_100us :: Time where
  "Time_100us = 100000"

subsection \<open>The calls on the collaborators\<close>

datatype event =
    Ev_IsFinished addr
  | Ev_FlowUpdateInfo addr
  | Ev_GetWeight addr
  | Ev_GetMarkedRatio
  | Ev_GetMarkedBytes
  | Ev_EcnReset
  | Ev_TimerSchedule Time
  | Ev_ForwardTarget nat
  | Ev_ScheduleNowInitialize

subsection \<open>The tunnel\<close>

text \<open>
  Modelled from the spec: the header c3-tunnel.h, which declares the members and their
  types, is not under src/. The members are those c3-tunnel.cc names. \<open>m_sentBytes\<close>
  is the spec's byte counter; its type \<open>'s\<close> is used at an unsigned machine integer
  \<open>'w word\<close> whose width \<open>'w\<close> is left open. The key type \<open>'k\<close> of the flow table,
  the state \<open>'f\<close> of a flow and the state \<open>'e\<close> of the ECN recorder are left open as
  well. \<open>m_flowList\<close> lists the table's entries in iteration order. \<open>m_timer\<close> is
  the delay of the pending timer event, if any.
\<close>

record ('f, 'e, 's, 'k) C3Tunnel =
  m_alpha :: double
  m_g :: double
  m_weight :: double
  m_weightRequest :: double
  m_rate :: DataRate
  m_rateMax :: DataRate
  m_rateMin :: DataRate
  m_rateThresh :: DataRate
  m_sentBytes :: 's
  m_interval :: Time
  m_flowList :: "('k \<times> addr) list"
  m_ecnRecorder :: 'e
  m_timer :: "Time option"
  heap :: "addr \<Rightarrow> 'f"
  calls :: "event list"

text \<open>
  The collaborators, none of them under src/, are parameters, and every theorem below
  holds for each choice of them:
  \<^item> \<open>C3Flow::IsFinished\<close>, \<open>C3Flow::UpdateInfo\<close>, \<open>C3Flow::GetWeight\<close>;
  \<^item> \<open>C3EcnRecorder::GetMarkedRatio\<close>, \<open>GetMarkedBytes\<close>, \<open>Reset\<close>;
  \<^item> \<open>C3Tunnel::ScheduleFlow\<close>, which \<open>Update\<close> calls and c3-tunnel.cc does not
    define: any function on the tunnel's state;
  \<^item> \<open>double_to_uint64_undefined\<close>: the bits a conversion from \<open>double\<close> to
    \<open>uint64_t\<close> leaves when the truncated value is not a \<open>uint64_t\<close>, which C++ does
    not define; they may depend on the double converted.
\<close>

record ('f, 'e, 's, 'k) collaborators =
  IsFinished :: "'f \<Rightarrow> bool"
  Flow_UpdateInfo :: "'f \<Rightarrow> 'f"
  GetWeight :: "'f \<Rightarrow> double"
  GetMarkedRatio :: "'e \<Rightarrow> double"
  GetMarkedBytes :: "'e \<Rightarrow> nat"
  Reset :: "'e \<Rightarrow> 'e"
  ScheduleFlow :: "('f, 'e, 's, 'k) C3Tunnel \<Rightarrow> ('f, 'e, 's, 'k) C3Tunnel"
  double_to_uint64_undefined :: "double \<Rightarrow> 64 word"

subsection \<open>Constructing a data rate from a double\<close>

text \<open>
  \<open>DataRate (double)\<close> goes through the constructor \<open>DataRate (uint64_t bps)\<close>: the
  double is converted to \<open>uint64_t\<close>, which truncates towards zero when the truncated
  value fits, and is undefined otherwise.
\<close>

definition DataRate_of_double ::
  "('f, 'e, 's, 'k) collaborators \<Rightarrow> double \<Rightarrow> DataRate" where
  "DataRate_of_double env d =
     (case d of
        Finite x \<Rightarrow>
          if - 1 < x \<and> x < 2 ^ 64
          then word_of_int (if 0 \<le> x then \<lfloor>x\<rfloor> else \<lceil>x\<rceil>)
          else double_to_uint64_undefined env d
      | PInf \<Rightarrow> double_to_uint64_undefined env d
      | MInf \<Rightarrow> double_to_uint64_undefined env d
      | NaN \<Rightarrow> double_to_uint64_undefined env d)"

subsection \<open>UpdateInfo (lines 170-189)\<close>

text \<open>The loop over the flow table: \<open>h\<close> is the store, \<open>w\<close> the local \<open>weightRequest\<close>.\<close>

fun UpdateInfo_loop ::
  "('f, 'e, 's, 'k) collaborators \<Rightarrow> ('k \<times> addr) list \<Rightarrow>
   (addr \<Rightarrow> 'f) \<times> double \<times> event list \<Rightarrow> (addr \<Rightarrow> 'f) \<times> double \<times> event list" where
  "UpdateInfo_loop env [] (h, w, cs) = (h, w, cs)"
| "UpdateInfo_loop env ((k, flow) # rest) (h, w, cs) =
     (if \<not> IsFinished env (h flow)
      then (let h' = h(flow := Flow_UpdateInfo env (h flow))
            in UpdateInfo_loop env rest
                 (h', dadd w (GetWeight env (h' flow)),
                  cs @ [Ev_IsFinished flow, Ev_FlowUpdateInfo flow, Ev_GetWeight flow]))
      else UpdateInfo_loop env rest (h, w, cs @ [Ev_IsFinished flow]))"

definition UpdateInfo ::
  "('f, 'e, 's, 'k) collaborators \<Rightarrow> ('f, 'e, 's, 'k) C3Tunnel \<Rightarrow> ('f, 'e, 's, 'k) C3Tunnel" where
  "UpdateInfo env t =
     (let t1 = t\<lparr>m_alpha := dadd (dmul (dsub (Finite 1) (m_g t)) (m_alpha t))
                                 (dmul (m_g t) (GetMarkedRatio env (m_ecnRecorder t))),
                calls := calls t @ [Ev_GetMarkedRatio]\<rparr>;
          (h, weightRequest, cs) =
            UpdateInfo_loop env (m_flowList t1) (heap t1, Finite 0, calls t1)
      in t1\<lparr>heap := h, calls := cs, m_weightRequest := weightRequest\<rparr>)"

subsection \<open>UpdateRate (lines 191-222)\<close>

text \<open>
  The local \<open>prevRate\<close>: \<open>m_sentBytes * 8\<close> is computed in the counter's type,
  converted to double and divided by the interval in seconds. With a zero interval the
  quotient is \<open>+inf\<close>, or NaN when no byte was sent.
\<close>

definition prevRate :: "('f, 'e, 'w::len word, 'k) C3Tunnel \<Rightarrow> double" where
  "prevRate t = ddiv (double_of_nat (unat (m_sentBytes t * 8))) (GetSeconds (m_interval t))"

definition UpdateRate ::
  "('f, 'e, 'w::len word, 'k) collaborators \<Rightarrow> ('f, 'e, 'w word, 'k) C3Tunnel \<Rightarrow>
   ('f, 'e, 'w word, 'k) C3Tunnel" where
  "UpdateRate env t =
     (let prev = prevRate t;
          t0 = t\<lparr>calls := calls t @ [Ev_GetMarkedBytes]\<rparr>;
          (rate, t1) =
            (if GetMarkedBytes env (m_ecnRecorder t0) \<noteq> 0
             then (let rate = DataRate_of_double env
                                (dmul (dsub (Finite 1) (ddiv (m_alpha t0) (Finite 2))) prev)
                   in (rate, t0\<lparr>m_rateThresh := rate\<rparr>))
             else if m_rate t0 < m_rateThresh t0
             then (DataRate_of_double env (dmul (dadd (Finite 1) (m_weight t0)) prev), t0)
             else (DataRate_of_double env
                     (dadd prev (dmul (m_weight t0) (double_of_nat (unat DataRate_10Mbps)))),
                   t0))
      in t1\<lparr>m_rate := max (min rate (m_rateMax t1)) (m_rateMin t1)\<rparr>)"

subsection \<open>Update and the other member functions (lines 84-168)\<close>

text \<open>
  \<open>Update\<close> (lines 98-110). \<open>Timer::Schedule\<close> arms the timer with the given delay.
\<close>

definition Update ::
  "('f, 'e, 'w::len word, 'k) collaborators \<Rightarrow> ('f, 'e, 'w word, 'k) C3Tunnel \<Rightarrow>
   ('f, 'e, 'w word, 'k) C3Tunnel" where
  "Update env t =
     (let t1 = UpdateInfo env t;
          t2 = UpdateRate env t1;
          t3 = ScheduleFlow env t2;
          t4 = t3\<lparr>m_ecnRecorder := Reset env (m_ecnRecorder t3),
                  calls := calls t3 @ [Ev_EcnReset]\<rparr>;
          t5 = t4\<lparr>m_sentBytes := 0\<rparr>
      in t5\<lparr>m_timer := Some (m_interval t5),
             calls := calls t5 @ [Ev_TimerSchedule (m_interval t5)]\<rparr>)"

definition GetWeightRequest :: "('f, 'e, 's, 'k) C3Tunnel \<Rightarrow> double" where
  "GetWeightRequest t = m_weightRequest t"

definition SetWeight ::
  "double \<Rightarrow> ('f, 'e, 's, 'k) C3Tunnel \<Rightarrow> ('f, 'e, 's, 'k) C3Tunnel" where
  "SetWeight weight t = t\<lparr>m_weight := weight\<rparr>"

definition SetRateThresh ::
  "DataRate \<Rightarrow> ('f, 'e, 's, 'k) C3Tunnel \<Rightarrow> ('f, 'e, 's, 'k) C3Tunnel" where
  "SetRateThresh rate t = t\<lparr>m_rateThresh := rate\<rparr>"

definition DoInitialize :: "('f, 'e, 's, 'k) C3Tunnel \<Rightarrow> ('f, 'e, 's, 'k) C3Tunnel" where
  "DoInitialize t =
     t\<lparr>m_timer := Some (m_interval t), calls := calls t @ [Ev_TimerSchedule (m_interval t)]\<rparr>"

text \<open>\<open>Forward\<close> (lines 155-162); \<open>sz\<close> is \<open>packet->GetSize ()\<close>.\<close>

definition Forward ::
  "nat \<Rightarrow> ('f, 'e, 'w::len word, 'k) C3Tunnel \<Rightarrow> ('f, 'e, 'w word, 'k) C3Tunnel" where
  "Forward sz t =
     t\<lparr>m_sentBytes := m_sentBytes t + of_nat sz, calls := calls t @ [Ev_ForwardTarget sz]\<rparr>"

definition GetRate :: "('f, 'e, 's, 'k) C3Tunnel \<Rightarrow> DataRate" where
  "GetRate t = m_rate t"

subsection \<open>Construction (lines 14-77)\<close>

text \<open>
  The constructor's member initialisers (lines 64-72); the literals 1.0, 0.625 and 0.0
  are doubles. The members it does not name (\<open>m_rateMax\<close>, \<open>m_rateMin\<close>,
  \<open>m_rateThresh\<close>, \<open>m_interval\<close>, \<open>m_flowList\<close>) are default-constructed: a zero data
  rate, a zero time, an empty table. \<open>recorder\<close> is what
  \<open>C3EcnRecorder::CreateEcnRecorder\<close> returns and \<open>h\<close> the store of flow objects. The
  constructor ends by asking the simulator to call \<open>Initialize\<close>, which runs
  \<open>DoInitialize\<close>.
\<close>

definition C3Tunnel_ctor :: "'e \<Rightarrow> (addr \<Rightarrow> 'f) \<Rightarrow> ('f, 'e, 'w::len word, 'k) C3Tunnel" where
  "C3Tunnel_ctor recorder h =
     \<lparr>m_alpha = Finite 1.0, m_g = Finite 0.625, m_weight = Finite 0.0,
      m_weightRequest = Finite 0.0,
      m_rate = 0, m_rateMax = 0, m_rateMin = 0, m_rateThresh = 0,
      m_sentBytes = 0, m_interval = 0, m_flowList = [],
      m_ecnRecorder = recorder, m_timer = None, heap = h, calls = [Ev_ScheduleNowInitialize]\<rparr>"

text \<open>
  The attribute table of \<open>GetTypeId\<close> (lines 20-45). An ns-3 object is made by the
  constructor followed by the attribute system, which stores in each member named by an
  accessor the value configured for the attribute, or the attribute's initial value, after
  the attribute's checker has accepted it; a value the checker refuses is a fatal error.
  The constructor relies on it: it gives \<open>m_interval\<close> and the three rate members no
  value of its own. A configured Gamma is a decimal text or a double, and the attribute
  holds the double nearest to it. \<open>MakeDoubleChecker<double> (min, max)\<close> accepts
  \<open>min \<le> v \<le> max\<close>, which no infinity or NaN meets here; \<open>MakeTimeChecker (min)\<close>
  accepts \<open>min \<le> v \<le> Time::Max ()\<close>; \<open>MakeDataRateChecker ()\<close> accepts every data
  rate.
\<close>

datatype error = InvalidAttributeValue string

record attributes =
  Gamma :: "real option"
  Interval :: "Time option"
  MaxRate :: "DataRate option"
  MinRate :: "DataRate option"
  RateThresh :: "DataRate option"

definition DoubleChecker :: "real \<Rightarrow> real \<Rightarrow> double \<Rightarrow> bool" where
  "DoubleChecker lo hi v =
     (case v of Finite x \<Rightarrow> lo \<le> x \<and> x \<le> hi | PInf \<Rightarrow> False | MInf \<Rightarrow> False | NaN \<Rightarrow> False)"

definition TimeChecker :: "Time \<Rightarrow> Time \<Rightarrow> bool" where
  "TimeChecker lo v = (lo \<le> v \<and> v \<le> Time_Max)"

definition ConstructSelf ::
  "attributes \<Rightarrow> ('f, 'e, 's, 'k) C3Tunnel \<Rightarrow> error + ('f, 'e, 's, 'k) C3Tunnel" where
  "ConstructSelf cfg t =
     (let gamma = (case Gamma cfg of None \<Rightarrow> ddiv (Finite 1.0) (Finite 16)
                   | Some v \<Rightarrow> round_to_double v);
          interval = (case Interval cfg of None \<Rightarrow> Time_100us | Some v \<Rightarrow> v);
          maxRate = (case MaxRate cfg of None \<Rightarrow> DataRate_1000Mbps | Some v \<Rightarrow> v);
          minRate = (case MinRate cfg of None \<Rightarrow> DataRate_1Mbps | Some v \<Rightarrow> v);
          rateThresh = (case RateThresh cfg of None \<Rightarrow> DataRate_500Mbps | Some v \<Rightarrow> v)
      in if \<not> DoubleChecker 0.0 1.0 gamma then Inl (InvalidAttributeValue ''Gamma'')
         else if \<not> TimeChecker 0 interval then Inl (InvalidAttributeValue ''Interval'')
         else Inr (t\<lparr>m_g := gamma, m_interval := interval, m_rateMax := maxRate,
                     m_rateMin := minRate, m_rateThresh := rateThresh\<rparr>))"

definition CreateObject ::
  "'e \<Rightarrow> (addr \<Rightarrow> 'f) \<Rightarrow> attributes \<Rightarrow> error + ('f, 'e, 'w::len word, 'k) C3Tunnel" where
  "CreateObject recorder h cfg = ConstructSelf cfg (C3Tunnel_ctor recorder h)"

text \<open>No attribute configured: every attribute takes its initial value.\<close>

definition no_attributes :: attributes where
  "no_attributes =
     \<lparr>Gamma = None, Interval = None, MaxRate = None, MinRate = None, RateThresh = None\<rparr>"

subsection \<open>The tunnel's lifetime\<close>

text \<open>
  After construction the simulator calls \<open>DoInitialize\<close>, the timer calls \<open>Update\<close>,
  and the tunnel's users call \<open>Forward\<close>, \<open>SetWeight\<close> and \<open>SetRateThresh\<close>, in any
  order.
\<close>

datatype operation =
    Op_DoInitialize
  | Op_Update
  | Op_Forward nat
  | Op_SetWeight double
  | Op_SetRateThresh DataRate

fun perform ::
  "('f, 'e, 'w::len word, 'k) collaborators \<Rightarrow> operation \<Rightarrow> ('f, 'e, 'w word, 'k) C3Tunnel \<Rightarrow>
   ('f, 'e, 'w word, 'k) C3Tunnel" where
  "perform env Op_DoInitialize t = DoInitialize t"
| "perform env Op_Update t = Update env t"
| "perform env (Op_Forward sz) t = Forward sz t"
| "perform env (Op_SetWeight weight) t = SetWeight weight t"
| "perform env (Op_SetRateThresh rate) t = SetRateThresh rate t"

fun run ::
  "('f, 'e, 'w::len word, 'k) collaborators \<Rightarrow> operation list \<Rightarrow> ('f, 'e, 'w word, 'k) C3Tunnel \<Rightarrow>
   ('f, 'e, 'w word, 'k) C3Tunnel" where
  "run env [] t = t"
| "run env (x # xs) t = run env xs (perform env x t)"

subsection \<open>The refresh of the flow aggregate, after the spec\<close>

text \<open>
  The spec's words (section 4.2): for every flow where \<open>isFinished()\<close> is false, invoke
  \<open>updateInfo()\<close>, then add \<open>getWeight()\<close> to an accumulator; a finished flow is
  skipped. \<open>refresh_flow\<close> is that step for the flow at one handle, on the store, the
  accumulator and the log of calls; the refresh is its fold over the table's handles.
\<close>

definition refresh_flow ::
  "('f, 'e, 's, 'k) collaborators \<Rightarrow> (addr \<Rightarrow> 'f) \<times> double \<times> event list \<Rightarrow> addr \<Rightarrow>
   (addr \<Rightarrow> 'f) \<times> double \<times> event list" where
  "refresh_flow env acc a =
     (case acc of (h, w, cs) \<Rightarrow>
        if IsFinished env (h a) then (h, w, cs @ [Ev_IsFinished a])
        else (h(a := Flow_UpdateInfo env (h a)),
              dadd w (GetWeight env (Flow_UpdateInfo env (h a))),
              cs @ [Ev_IsFinished a, Ev_FlowUpdateInfo a, Ev_GetWeight a]))"

subsection \<open>A concrete tunnel\<close>

text \<open>
  A tunnel with the default attributes, used to instantiate the theorems: alpha is the
  double 0.1, gamma \<open>1 / 16\<close>, the weight the double 0.13, 4500 bytes sent in an
  interval of 100 microseconds, a stored rate of 1 Mbit/s below the threshold of
  500 Mbit/s. A flow is a pair of its finished flag and a count that is its weight, and
  its \<open>UpdateInfo\<close> adds one to the count; the ECN recorder is the pair of its marked
  ratio and its marked bytes; \<open>ScheduleFlow\<close> forwards one packet of 1500 bytes; an
  undefined conversion leaves \<open>2 ^ 63\<close> for NaN and 0 otherwise.
\<close>

definition example_env :: "(bool \<times> nat, double \<times> nat, 32 word, nat) collaborators" where
  "example_env =
     \<lparr>IsFinished = fst, Flow_UpdateInfo = (\<lambda>f. (fst f, snd f + 1)),
      GetWeight = (\<lambda>f. double_of_nat (snd f)),
      GetMarkedRatio = fst, GetMarkedBytes = snd, Reset = (\<lambda>e. (Finite 0, 0)),
      ScheduleFlow = Forward 1500,
      double_to_uint64_undefined = (\<lambda>d. if d = NaN then 2 ^ 63 else 0)\<rparr>"

definition example_heap :: "addr \<Rightarrow> bool \<times> nat" where
  "example_heap a = (if a = 10 then (False, 2) else if a = 11 then (True, 5) else (False, 3))"

definition example_tunnel ::
  "double \<times> nat \<Rightarrow> (bool \<times> nat, double \<times> nat, 32 word, nat) C3Tunnel" where
  "example_tunnel recorder =
     \<lparr>m_alpha = round_to_double (1 / 10), m_g = Finite (1 / 16), m_weight = round_to_double (13 / 100),
      m_weightRequest = Finite 0,
      m_rate = DataRate_1Mbps, m_rateMax = DataRate_1000Mbps, m_rateMin = DataRate_1Mbps,
      m_rateThresh = DataRate_500Mbps, m_sentBytes = 4500, m_interval = Time_100us,
      m_flowList = [(1, 10), (2, 11), (3, 12)], m_ecnRecorder = recorder, m_timer = None,
      heap = example_heap, calls = []\<rparr>"

text \<open>The tunnel that construction yields when no attribute is configured.\<close>

definition example_created ::
  "double \<times> nat \<Rightarrow> (bool \<times> nat, double \<times> nat, 32 word, nat) C3Tunnel" where
  "example_created recorder = projr (CreateObject recorder example_heap no_attributes)"

section \<open>Facts about rounding\<close>

text \<open>
  \<open>round_even\<close> is within a half of its argument and monotone; the exponent of a real
  is characterised by the two powers of two around it; \<open>round_value\<close> is monotone on
  the nonnegative reals, leaves the reals \<open>n * 2 ^ j\<close> with \<open>\<bar>n\<bar> \<le> 2 ^ 53\<close> alone,
  and is within \<open>2 ^ - 54\<close> of its argument on \<open>[0, 1]\<close>.
\<close>

lemma round_even_of_int: "round_even (of_int n) = n"
  by (simp add: round_even_def)

lemma round_even_bounds: "\<lfloor>x\<rfloor> \<le> round_even x \<and> round_even x \<le> \<lfloor>x\<rfloor> + 1"
  by (simp add: round_even_def)

lemma round_even_error: "\<bar>of_int (round_even x) - x\<bar> \<le> 1 / 2"
  unfolding round_even_def by (auto simp: abs_if not_less) linarith+

lemma round_even_mono:
  assumes "x \<le> y"
  shows "round_even x \<le> round_even y"
proof (cases "\<lfloor>x\<rfloor> = \<lfloor>y\<rfloor>")
  case True
  with assms show ?thesis
    by (auto simp: round_even_def)
next
  case False
  with assms have "\<lfloor>x\<rfloor> + 1 \<le> \<lfloor>y\<rfloor>"
    using floor_mono [OF assms] by linarith
  with round_even_bounds [of x] round_even_bounds [of y] show ?thesis
    by linarith
qed

lemma round_even_ge_int: "of_int n \<le> x \<Longrightarrow> n \<le> round_even x"
  using round_even_mono [of "of_int n" x] by (simp add: round_even_of_int)

lemma round_even_le_int: "x \<le> of_int n \<Longrightarrow> round_even x \<le> n"
  using round_even_mono [of x "of_int n"] by (simp add: round_even_of_int)

lemma two_powr_int: "(2::real) powr real_of_int e = 2 powi e"
  by (simp add: powr_real_of_int')

lemma two_powr_int_Suc: "(2::real) powr (real_of_int e + 1) = 2 powi (e + 1)"
  using two_powr_int [of "e + 1"] by simp

lemma floor_log2_bounds:
  assumes "x \<noteq> 0"
  shows "2 powi \<lfloor>log 2 \<bar>x\<bar>\<rfloor> \<le> \<bar>x\<bar>" and "\<bar>x\<bar> < 2 powi (\<lfloor>log 2 \<bar>x\<bar>\<rfloor> + 1)"
proof -
  have pos: "0 < \<bar>x\<bar>" using assms by simp
  from floor_log_eq_powr_iff [OF pos, of 2 "\<lfloor>log 2 \<bar>x\<bar>\<rfloor>"]
  have "2 powr real_of_int \<lfloor>log 2 \<bar>x\<bar>\<rfloor> \<le> \<bar>x\<bar> \<and> \<bar>x\<bar> < 2 powr real_of_int (\<lfloor>log 2 \<bar>x\<bar>\<rfloor> + 1)"
    by simp
  then show "2 powi \<lfloor>log 2 \<bar>x\<bar>\<rfloor> \<le> \<bar>x\<bar>" and "\<bar>x\<bar> < 2 powi (\<lfloor>log 2 \<bar>x\<bar>\<rfloor> + 1)"
    by (simp_all add: two_powr_int two_powr_int_Suc)
qed

lemma floor_log2_eq:
  assumes "2 powi e \<le> \<bar>x\<bar>" and "\<bar>x\<bar> < 2 powi (e + 1)"
  shows "\<lfloor>log 2 \<bar>x\<bar>\<rfloor> = e"
proof -
  have "0 < (2::real) powi e" by simp
  with assms have pos: "0 < \<bar>x\<bar>" by linarith
  from assms have "2 powr real_of_int e \<le> \<bar>x\<bar> \<and> \<bar>x\<bar> < 2 powr real_of_int (e + 1)"
    by (simp add: two_powr_int two_powr_int_Suc)
  with floor_log_eq_powr_iff [OF pos, of 2 e] show ?thesis
    by simp
qed

lemma two_powi_pos [simp]: "0 < (2::real) powi e"
  by simp

lemma two_powi_add: "(2::real) powi (a + b) = 2 powi a * 2 powi b"
  by (simp add: power_int_add)

lemma two_powi_less_iff: "(2::real) powi a < 2 powi b \<longleftrightarrow> a < b"
proof
  assume less: "(2::real) powi a < 2 powi b"
  show "a < b"
  proof (rule ccontr)
    assume "\<not> a < b"
    then have "b \<le> a" by simp
    then have "(2::real) powi b \<le> 2 powi a"
      by (rule power_int_increasing) simp
    with less show False by simp
  qed
next
  assume "a < b"
  then show "(2::real) powi a < 2 powi b"
    by (rule power_int_strict_increasing) simp
qed

lemma two_powi_le_iff: "(2::real) powi a \<le> 2 powi b \<longleftrightarrow> a \<le> b"
  using two_powi_less_iff [of b a] by (simp add: not_less [symmetric])

lemma two_powi_Suc: "(2::real) powi (e + 1) = 2 ^ 53 * 2 powi (e - 52)"
proof -
  have "53 + (e - 52) = e + 1" by simp
  with two_powi_add [of 53 "e - 52"] show ?thesis by simp
qed

lemma two_powi_52: "(2::real) powi e = 2 ^ 52 * 2 powi (e - 52)"
  using two_powi_add [of 52 "e - 52"] by simp

lemma exponent_ge: "- 1022 \<le> exponent x"
  by (simp add: exponent_def)

lemma exponent_eq:
  assumes "2 powi e \<le> \<bar>x\<bar>" and "\<bar>x\<bar> < 2 powi (e + 1)" and "- 1022 \<le> e"
  shows "exponent x = e"
  using floor_log2_eq [OF assms(1,2)] assms(3) by (simp add: exponent_def)

lemma exponent_upper:
  assumes "x \<noteq> 0"
  shows "\<bar>x\<bar> < 2 powi (exponent x + 1)"
proof -
  have "\<lfloor>log 2 \<bar>x\<bar>\<rfloor> + 1 \<le> exponent x + 1"
    by (simp add: exponent_def)
  then have "(2::real) powi (\<lfloor>log 2 \<bar>x\<bar>\<rfloor> + 1) \<le> 2 powi (exponent x + 1)"
    by (simp only: two_powi_le_iff)
  with floor_log2_bounds(2) [OF assms] show ?thesis
    by linarith
qed

lemma exponent_lower:
  assumes "x \<noteq> 0" and "- 1022 < exponent x"
  shows "2 powi exponent x \<le> \<bar>x\<bar>"
proof -
  from assms(2) have "exponent x = \<lfloor>log 2 \<bar>x\<bar>\<rfloor>"
    by (simp add: exponent_def max_def split: if_splits)
  with floor_log2_bounds(1) [OF assms(1)] show ?thesis
    by simp
qed

lemma exponent_mono:
  assumes "0 < x" and "x \<le> y"
  shows "exponent x \<le> exponent y"
proof -
  have "log 2 \<bar>x\<bar> \<le> log 2 \<bar>y\<bar>"
    using assms by simp
  then have "\<lfloor>log 2 \<bar>x\<bar>\<rfloor> \<le> \<lfloor>log 2 \<bar>y\<bar>\<rfloor>"
    by (rule floor_mono)
  then show ?thesis
    by (simp add: exponent_def)
qed

lemma ulp_pos [simp]: "0 < ulp x"
  by (simp add: ulp_def)

lemma ulp_nonneg [simp]: "0 \<le> ulp x"
  by (simp add: ulp_def)

lemma ulp_nonzero [simp]: "ulp x \<noteq> 0"
  by (simp add: ulp_def)

lemma round_value_nonneg:
  assumes "0 \<le> x"
  shows "0 \<le> round_value x"
proof (cases "x = 0")
  case True
  then show ?thesis by (simp add: round_value_def)
next
  case False
  have "0 \<le> x / ulp x"
    using assms by simp
  then have "0 \<le> round_even (x / ulp x)"
    using round_even_ge_int [of 0 "x / ulp x"] by simp
  then show ?thesis
    using False by (simp add: round_value_def)
qed

lemma round_value_upper:
  assumes "0 < x"
  shows "round_value x \<le> 2 powi (exponent x + 1)"
proof -
  have "x < 2 powi (exponent x + 1)"
    using exponent_upper [of x] assms by simp
  also have "(2::real) powi (exponent x + 1) = 2 ^ 53 * ulp x"
    unfolding ulp_def by (rule two_powi_Suc)
  finally have "x / ulp x \<le> of_int (2 ^ 53)"
    by (simp add: pos_divide_le_eq)
  then have "round_even (x / ulp x) \<le> 2 ^ 53"
    by (rule round_even_le_int)
  then have "real_of_int (round_even (x / ulp x)) \<le> real_of_int (2 ^ 53)"
    by (simp only: of_int_le_iff)
  then have "of_int (round_even (x / ulp x)) * ulp x \<le> 2 ^ 53 * ulp x"
    by (intro mult_right_mono) simp_all
  also have "2 ^ 53 * ulp x = (2::real) powi (exponent x + 1)"
    unfolding ulp_def by (rule two_powi_Suc [symmetric])
  finally show ?thesis
    using assms by (simp add: round_value_def)
qed

lemma round_value_lower:
  assumes "0 < x" and "2 powi exponent x \<le> x"
  shows "2 powi exponent x \<le> round_value x"
proof -
  have eq: "(2::real) powi exponent x = 2 ^ 52 * ulp x"
    unfolding ulp_def by (rule two_powi_52)
  with assms(2) have "of_int (2 ^ 52) \<le> x / ulp x"
    by (simp add: pos_le_divide_eq)
  then have "2 ^ 52 \<le> round_even (x / ulp x)"
    by (rule round_even_ge_int)
  then have "real_of_int (2 ^ 52) \<le> real_of_int (round_even (x / ulp x))"
    by (simp only: of_int_le_iff)
  then have "2 ^ 52 * ulp x \<le> of_int (round_even (x / ulp x)) * ulp x"
    by (intro mult_right_mono) simp_all
  with eq show ?thesis
    using assms by (simp add: round_value_def)
qed

lemma round_value_mono:
  assumes "0 \<le> x" and "x \<le> y"
  shows "round_value x \<le> round_value y"
proof (cases "x = 0")
  case True
  with assms round_value_nonneg [of y] show ?thesis
    by (simp add: round_value_def)
next
  case False
  with assms have x: "0 < x" and y: "0 < y" by simp_all
  show ?thesis
  proof (cases "exponent x = exponent y")
    case True
    then have "ulp x = ulp y" by (simp add: ulp_def)
    moreover have "x / ulp y \<le> y / ulp y"
      using assms(2) by (intro divide_right_mono) simp_all
    then have "round_even (x / ulp y) \<le> round_even (y / ulp y)"
      by (rule round_even_mono)
    ultimately show ?thesis
      using x y by (simp add: round_value_def mult_right_mono)
  next
    case False
    with exponent_mono [OF x assms(2)] have less: "exponent x + 1 \<le> exponent y"
      by simp
    with exponent_ge [of x] have "- 1022 < exponent y" by simp
    then have "2 powi exponent y \<le> y"
      using exponent_lower [of y] y by simp
    then have "2 powi exponent y \<le> round_value y"
      by (rule round_value_lower [OF y])
    moreover have "(2::real) powi (exponent x + 1) \<le> 2 powi exponent y"
      using less by (simp only: two_powi_le_iff)
    ultimately show ?thesis
      using round_value_upper [OF x] by linarith
  qed
qed

lemma round_value_eval:
  assumes "2 powi e \<le> \<bar>x\<bar>" and "\<bar>x\<bar> < 2 powi (e + 1)" and "- 1022 \<le> e"
  shows "round_value x = of_int (round_even (x / 2 powi (e - 52))) * 2 powi (e - 52)"
proof -
  have "0 < \<bar>x\<bar>"
    using assms(1) two_powi_pos [of e] by linarith
  then have "x \<noteq> 0" by simp
  then show ?thesis
    by (simp add: round_value_def ulp_def exponent_eq [OF assms])
qed

lemma exponent_le_of_less:
  assumes "x \<noteq> 0" and "\<bar>x\<bar> < 2 powi (k + 1)" and "- 1022 \<le> k"
  shows "exponent x \<le> k"
proof -
  have "2 powi \<lfloor>log 2 \<bar>x\<bar>\<rfloor> < (2::real) powi (k + 1)"
    using floor_log2_bounds(1) [OF assms(1)] assms(2) by linarith
  then have "\<lfloor>log 2 \<bar>x\<bar>\<rfloor> < k + 1"
    by (simp only: two_powi_less_iff)
  with assms(3) show ?thesis
    by (simp add: exponent_def)
qed

lemma round_value_exact_strict:
  assumes "\<bar>n\<bar> < 2 ^ 53" and "- 1074 \<le> j"
  shows "round_value (of_int n * 2 powi j) = of_int n * 2 powi j"
proof (cases "n = 0")
  case True
  then show ?thesis by (simp add: round_value_def)
next
  case False
  define x where "x = real_of_int n * 2 powi j"
  have nz: "x \<noteq> 0" using False by (simp add: x_def)
  have "\<bar>x\<bar> = real_of_int \<bar>n\<bar> * 2 powi j"
    by (simp add: x_def abs_mult)
  also have "\<dots> < 2 ^ 53 * 2 powi j"
  proof -
    from assms(1) have "real_of_int \<bar>n\<bar> < real_of_int (2 ^ 53)"
      by (simp only: of_int_less_iff)
    then show ?thesis by simp
  qed
  also have "2 ^ 53 * 2 powi j = (2::real) powi ((j + 52) + 1)"
    using two_powi_add [of 53 j] by (simp add: add.commute)
  finally have le: "exponent x \<le> j + 52"
    using assms(2) by (intro exponent_le_of_less [OF nz]) simp_all
  define d where "d = exponent x - 52"
  define k where "k = nat (j - d)"
  have j: "j = d + int k"
    using le by (simp add: d_def k_def)
  have u: "ulp x = 2 powi d"
    by (simp add: ulp_def d_def)
  have pow: "(2::real) powi j = 2 powi d * 2 ^ k"
    unfolding j by (simp add: two_powi_add)
  have val: "x = real_of_int (n * 2 ^ k) * 2 powi d"
    by (simp add: x_def pow)
  have "x / ulp x = x / 2 powi d"
    by (simp only: u)
  also have "\<dots> = real_of_int (n * 2 ^ k) * 2 powi d / 2 powi d"
    using val by simp
  also have "\<dots> = of_int (n * 2 ^ k)"
    by simp
  finally have quot: "x / ulp x = of_int (n * 2 ^ k)" .
  have "round_value x = of_int (round_even (x / ulp x)) * ulp x"
    using nz by (simp add: round_value_def)
  also have "\<dots> = of_int (n * 2 ^ k) * ulp x"
    by (simp only: quot round_even_of_int)
  also have "\<dots> = of_int (n * 2 ^ k) * 2 powi d"
    by (simp only: u)
  also have "\<dots> = x"
    by (simp only: val)
  finally show ?thesis
    by (simp only: x_def)
qed

lemma round_value_exact:
  assumes "\<bar>n\<bar> \<le> 2 ^ 53" and "- 1074 \<le> j"
  shows "round_value (of_int n * 2 powi j) = of_int n * 2 powi j"
proof (cases "\<bar>n\<bar> < 2 ^ 53")
  case True
  then show ?thesis by (rule round_value_exact_strict [OF _ assms(2)])
next
  case False
  with assms(1) have n: "n = 2 ^ 53 \<or> n = - (2 ^ 53)"
    by linarith
  have half: "\<bar>n div 2\<bar> < 2 ^ 53" and twice: "n = 2 * (n div 2)"
    using n by auto
  have "real_of_int n * 2 powi j = real_of_int (n div 2) * 2 powi (j + 1)"
  proof -
    have "real_of_int n = 2 * real_of_int (n div 2)"
      using twice by (metis of_int_mult of_int_numeral)
    then show ?thesis
      by (simp add: two_powi_add)
  qed
  with round_value_exact_strict [OF half, of "j + 1"] assms(2) show ?thesis
    by simp
qed

lemma round_even_magnitude:
  assumes "\<bar>x\<bar> \<le> of_int n"
  shows "\<bar>round_even x\<bar> \<le> n"
proof -
  from assms have up: "x \<le> of_int n" and down: "of_int (- n) \<le> x"
    by simp_all
  have "round_even x \<le> n"
    using up by (rule round_even_le_int)
  moreover have "- n \<le> round_even x"
    using down by (rule round_even_ge_int)
  ultimately show ?thesis by simp
qed

lemma round_value_idem: "round_value (round_value x) = round_value x"
proof (cases "x = 0")
  case True
  then show ?thesis by (simp add: round_value_def)
next
  case False
  have "\<bar>x\<bar> < 2 ^ 53 * ulp x"
    using exponent_upper [OF False] two_powi_Suc [of "exponent x"] by (simp add: ulp_def)
  then have "\<bar>x / ulp x\<bar> \<le> of_int (2 ^ 53)"
    by (simp add: pos_divide_le_eq)
  then have "\<bar>round_even (x / ulp x)\<bar> \<le> 2 ^ 53"
    by (rule round_even_magnitude)
  moreover have "- 1074 \<le> exponent x - 52"
    using exponent_ge [of x] by simp
  ultimately have "round_value (of_int (round_even (x / ulp x)) * 2 powi (exponent x - 52)) =
      of_int (round_even (x / ulp x)) * 2 powi (exponent x - 52)"
    by (rule round_value_exact)
  then show ?thesis
    using False by (simp add: round_value_def ulp_def)
qed

lemma round_value_error_unit:
  assumes "0 \<le> x" and "x \<le> 1"
  shows "\<bar>round_value x - x\<bar> \<le> 1 / 2 ^ 54"
proof -
  consider "x = 0" | "x = 1" | "0 < x" "x < 1"
    using assms by linarith
  then show ?thesis
  proof cases
    case 1
    then show ?thesis by (simp add: round_value_def)
  next
    case 2
    with round_value_exact [of 1 0] show ?thesis by simp
  next
    case 3
    then have nz: "x \<noteq> 0" by simp
    have "exponent x \<le> - 1"
      using 3 by (intro exponent_le_of_less [OF nz]) simp_all
    then have "exponent x - 52 \<le> - 53" by simp
    then have "ulp x \<le> 2 powi (- 53)"
      unfolding ulp_def by (simp only: two_powi_le_iff)
    then have small: "ulp x \<le> 1 / 2 ^ 53"
      by (simp add: power_int_minus_divide)
    have "round_value x - x = (of_int (round_even (x / ulp x)) - x / ulp x) * ulp x"
      using nz by (simp add: round_value_def left_diff_distrib)
    then have "\<bar>round_value x - x\<bar> = \<bar>of_int (round_even (x / ulp x)) - x / ulp x\<bar> * ulp x"
      by (simp add: abs_mult)
    also have "\<dots> \<le> 1 / 2 * ulp x"
      by (intro mult_right_mono round_even_error) simp
    also have "\<dots> \<le> 1 / 2 ^ 54"
      using small by simp
    finally show ?thesis .
  qed
qed

lemma round_value_near_one:
  assumes "1 - 1 / 2 ^ 54 \<le> x" and "x \<le> 1 + 1 / 2 ^ 53"
  shows "round_value x = 1"
proof (cases "x < 1")
  case True
  have "round_value x = of_int (round_even (x / 2 powi (- 1 - 52))) * 2 powi (- 1 - 52)"
    using True assms(1) by (intro round_value_eval) (simp_all add: power_int_minus_divide)
  also have "x / 2 powi (- 1 - 52) = x * 2 ^ 53"
    by (simp add: power_int_minus_divide)
  also have "round_even (x * 2 ^ 53) = 2 ^ 53"
  proof -
    have lo: "2 ^ 53 - 1 / 2 \<le> x * 2 ^ 53" and hi: "x * 2 ^ 53 < 2 ^ 53"
      using assms(1) True by (simp_all add: field_simps)
    then have fl: "\<lfloor>x * 2 ^ 53\<rfloor> = 2 ^ 53 - 1"
      by (intro floor_unique) simp_all
    show ?thesis
      unfolding round_even_def fl using lo by auto
  qed
  finally show ?thesis
    by (simp add: power_int_minus_divide)
next
  case False
  have "round_value x = of_int (round_even (x / 2 powi (0 - 52))) * 2 powi (0 - 52)"
    using False assms(2) by (intro round_value_eval) simp_all
  also have "x / 2 powi (0 - 52) = x * 2 ^ 52"
    by (simp add: power_int_minus_divide)
  also have "round_even (x * 2 ^ 52) = 2 ^ 52"
  proof -
    have lo: "2 ^ 52 \<le> x * 2 ^ 52" and hi: "x * 2 ^ 52 \<le> 2 ^ 52 + 1 / 2"
      using assms(2) False by (simp_all add: field_simps)
    then have fl: "\<lfloor>x * 2 ^ 52\<rfloor> = 2 ^ 52"
      by (intro floor_unique) simp_all
    show ?thesis
      unfolding round_even_def fl using hi by auto
  qed
  finally show ?thesis
    by (simp add: power_int_minus_divide)
qed

text \<open>
  Rounding to double of the reals that are doubles, and of a real whose exponent is
  given, which evaluates the rounding of a concrete number. One refresh of alpha stays in
  \<open>[0, 1]\<close> in double arithmetic and is exactly 1 from alpha 1 with a marked ratio of 1;
  the factor \<open>1 - alpha / 2\<close> stays in \<open>[1 / 2, 1]\<close>.
\<close>

lemma round_value_zero [simp]: "round_value 0 = 0"
  by (simp add: round_value_def)

lemma round_to_double_exact:
  assumes "\<bar>n\<bar> \<le> 2 ^ 53" and "- 1074 \<le> j" and "j \<le> 970"
  shows "round_to_double (of_int n * 2 powi j) = Finite (of_int n * 2 powi j)"
proof -
  have "\<bar>real_of_int n * 2 powi j\<bar> = real_of_int \<bar>n\<bar> * 2 powi j"
    by (simp add: abs_mult)
  also have "\<dots> \<le> 2 ^ 53 * 2 powi j"
  proof -
    from assms(1) have "real_of_int \<bar>n\<bar> \<le> real_of_int (2 ^ 53)"
      by (simp only: of_int_le_iff)
    then show ?thesis by simp
  qed
  also have "\<dots> \<le> 2 ^ 53 * 2 powi 970"
  proof -
    have "(2::real) powi j \<le> 2 powi 970"
      using assms(3) by (simp only: two_powi_le_iff)
    then show ?thesis
      by (intro mult_left_mono) simp_all
  qed
  also have "\<dots> < 2 ^ 1024"
    by simp
  finally show ?thesis
    by (simp add: round_to_double_def round_value_exact [OF assms(1,2)])
qed

lemma round_to_double_int:
  assumes "\<bar>n\<bar> \<le> 2 ^ 53"
  shows "round_to_double (of_int n) = Finite (of_int n)"
  using round_to_double_exact [OF assms, of 0] by simp

lemma round_to_double_dyadic:
  assumes "\<bar>n\<bar> \<le> 2 ^ 53" and "k \<le> 1074"
  shows "round_to_double (of_int n / 2 ^ k) = Finite (of_int n / 2 ^ k)"
proof -
  have "(2::real) powi (- int k) = 1 / 2 ^ k"
    by (simp add: power_int_minus_divide)
  with round_to_double_exact [OF assms(1), of "- int k"] assms(2) show ?thesis
    by simp
qed

lemma round_to_double_numeral [simp]:
  "numeral k \<le> (2 ^ 53 :: int) \<Longrightarrow> round_to_double (numeral k) = Finite (numeral k)"
  using round_to_double_int [of "numeral k"] by simp

lemma round_to_double_zero [simp]: "round_to_double 0 = Finite 0"
  using round_to_double_int [of 0] by simp

lemma round_to_double_one [simp]: "round_to_double 1 = Finite 1"
  using round_to_double_int [of 1] by simp

lemma round_value_one [simp]: "round_value 1 = 1"
  using round_value_exact [of 1 0] by simp

lemma round_value_two [simp]: "round_value 2 = 2"
  using round_value_exact [of 2 0] by simp

lemma round_value_half [simp]: "round_value (1 / 2) = 1 / 2"
  using round_value_exact [of 1 "- 1"] by (simp add: power_int_minus_divide)

lemma round_to_double_small:
  assumes "0 \<le> x" and "x \<le> 2"
  shows "round_to_double x = Finite (round_value x)"
    and "0 \<le> round_value x" and "round_value x \<le> 2"
proof -
  show lo: "0 \<le> round_value x"
    using assms(1) by (rule round_value_nonneg)
  show hi: "round_value x \<le> 2"
    using round_value_mono [OF assms] by simp
  have "\<bar>round_value x\<bar> < 2 ^ 1024"
    using lo hi by simp
  then show "round_to_double x = Finite (round_value x)"
    by (simp add: round_to_double_def)
qed

lemma round_to_double_eval:
  assumes "0 < x" and "2 powi e \<le> x" and "x < 2 powi (e + 1)" and "- 1022 \<le> e" and "e \<le> 1022"
  shows "round_to_double x =
         Finite (of_int (round_even (x / 2 powi (e - 52))) * 2 powi (e - 52))"
proof -
  have ex: "exponent x = e"
    using exponent_eq [of e x] assms by simp
  have val: "round_value x = of_int (round_even (x / 2 powi (e - 52))) * 2 powi (e - 52)"
    using round_value_eval [of e x] assms by simp
  have "round_value x \<le> 2 powi (e + 1)"
    using round_value_upper [OF assms(1)] by (simp add: ex)
  also have "\<dots> \<le> 2 powi 1023"
  proof -
    have "e + 1 \<le> 1023" using assms(5) by simp
    then show ?thesis by (simp only: two_powi_le_iff)
  qed
  also have "\<dots> < (2::real) ^ 1024"
    by simp
  finally have "\<bar>round_value x\<bar> < 2 ^ 1024"
    using round_value_nonneg [of x] assms(1) by simp
  then show ?thesis
    by (simp add: round_to_double_def val)
qed

lemma alpha_refresh_closed:
  assumes "0 \<le> a" and "a \<le> 1" and "0 \<le> g" and "g \<le> 1" and "0 \<le> r" and "r \<le> 1"
  shows "\<exists>s. dadd (dmul (dsub (Finite 1) (Finite g)) (Finite a)) (dmul (Finite g) (Finite r)) =
             Finite s \<and> 0 \<le> s \<and> s \<le> 1"
proof -
  define u where "u = round_value (1 - g)"
  define p where "p = round_value (u * a)"
  define q where "q = round_value (g * r)"
  have u0: "0 \<le> u" and u1: "u \<le> 1"
    using round_value_nonneg [of "1 - g"] round_value_mono [of "1 - g" 1] assms(3,4)
    by (simp_all add: u_def)
  have "\<bar>u - (1 - g)\<bar> \<le> 1 / 2 ^ 54"
    using round_value_error_unit [of "1 - g"] assms(3,4) by (simp add: u_def)
  then have uerr: "u \<le> 1 - g + 1 / 2 ^ 54"
    using abs_le_D1 [of "u - (1 - g)" "1 / 2 ^ 54"] by linarith
  have sub: "round_to_double (1 - g) = Finite u"
    using round_to_double_small(1) [of "1 - g"] assms(3,4) by (simp add: u_def)
  have ua: "0 \<le> u * a" "u * a \<le> u"
    using u0 assms(1,2) by (simp_all add: mult_left_le)
  have p0: "0 \<le> p" and pu: "p \<le> u"
    using round_value_nonneg [OF ua(1)] round_value_mono [OF ua] round_value_idem [of "1 - g"]
    by (simp_all add: p_def u_def)
  have mul1: "round_to_double (u * a) = Finite p"
    using round_to_double_small(1) [of "u * a"] ua u1 by (simp add: p_def)
  have gr: "0 \<le> g * r" "g * r \<le> g"
    using assms(3,5,6) by (simp_all add: mult_left_le)
  have q0: "0 \<le> q" and qg: "q \<le> g + 1 / 2 ^ 54"
  proof -
    show "0 \<le> q"
      using round_value_nonneg [OF gr(1)] by (simp add: q_def)
    have "q \<le> round_value g"
      using round_value_mono [OF gr] by (simp add: q_def)
    also have "\<dots> \<le> g + 1 / 2 ^ 54"
      using abs_le_D1 [OF round_value_error_unit [of g]] assms(3,4) by linarith
    finally show "q \<le> g + 1 / 2 ^ 54" .
  qed
  have mul2: "round_to_double (g * r) = Finite q"
    using round_to_double_small(1) [of "g * r"] gr assms(4) by (simp add: q_def)
  have sum0: "0 \<le> p + q" and sum1: "p + q \<le> 1 + 1 / 2 ^ 53"
    using p0 q0 pu uerr qg by simp_all
  have "round_value (p + q) \<le> round_value (1 + 1 / 2 ^ 53)"
    using sum0 sum1 by (rule round_value_mono)
  also have "\<dots> = 1"
    by (rule round_value_near_one) simp_all
  finally have s1: "round_value (p + q) \<le> 1" .
  have s0: "0 \<le> round_value (p + q)"
    using sum0 by (rule round_value_nonneg)
  have "round_to_double (p + q) = Finite (round_value (p + q))"
    using round_to_double_small(1) [of "p + q"] sum0 sum1 by simp
  with s0 s1 show ?thesis
    by (simp add: dsub_def sub mul1 mul2)
qed

lemma alpha_refresh_all_marked:
  assumes "g = round_value v" and "0 \<le> g" and "g \<le> 1"
  shows "dadd (dmul (dsub (Finite 1) (Finite g)) (Finite 1)) (dmul (Finite g) (Finite 1)) =
         Finite 1"
proof -
  define u where "u = round_value (1 - g)"
  have u0: "0 \<le> u" and u1: "u \<le> 1"
    using round_value_nonneg [of "1 - g"] round_value_mono [of "1 - g" 1] assms(2,3)
    by (simp_all add: u_def)
  have uerr: "\<bar>u - (1 - g)\<bar> \<le> 1 / 2 ^ 54"
    using round_value_error_unit [of "1 - g"] assms(2,3) by (simp add: u_def)
  have sub: "round_to_double (1 - g) = Finite u"
    using round_to_double_small(1) [of "1 - g"] assms(2,3) by (simp add: u_def)
  have mul1: "round_to_double u = Finite u"
    using round_to_double_small(1) [of u] u0 u1 round_value_idem [of "1 - g"]
    by (simp add: u_def)
  have mul2: "round_to_double g = Finite g"
    using round_to_double_small(1) [of g] assms(2,3) round_value_idem [of v]
    by (simp add: assms(1))
  have "(1::real) / 2 ^ 54 \<le> 1 / 2 ^ 53"
    by simp
  then have near: "1 - 1 / 2 ^ 54 \<le> u + g" "u + g \<le> 1 + 1 / 2 ^ 53"
    using abs_le_D1 [OF uerr] abs_le_D2 [OF uerr] by linarith+
  have "round_value (u + g) = 1"
    using near by (rule round_value_near_one)
  moreover have "round_to_double (u + g) = Finite (round_value (u + g))"
    using round_to_double_small(1) [of "u + g"] u0 u1 assms(2,3) by simp
  ultimately show ?thesis
    by (simp add: dsub_def sub mul1 mul2)
qed

lemma decrease_factor_range:
  assumes "0 \<le> s" and "s \<le> 1"
  shows "\<exists>f. dsub (Finite 1) (ddiv (Finite s) (Finite 2)) = Finite f \<and> 1 / 2 \<le> f \<and> f \<le> 1"
proof -
  define h where "h = round_value (s / 2)"
  have h0: "0 \<le> h" and h1: "h \<le> 1 / 2"
    using round_value_nonneg [of "s / 2"] round_value_mono [of "s / 2" "1 / 2"] assms
    by (simp_all add: h_def)
  have "round_to_double (s / 2) = Finite h"
    using round_to_double_small(1) [of "s / 2"] assms by (simp add: h_def)
  moreover have "round_to_double (1 - h) = Finite (round_value (1 - h))"
    using round_to_double_small(1) [of "1 - h"] h0 h1 by simp
  moreover have "1 / 2 \<le> round_value (1 - h)"
    using round_value_mono [of "1 / 2" "1 - h"] h1 by simp
  moreover have "round_value (1 - h) \<le> 1"
    using round_value_mono [of "1 - h" 1] h0 h1 by simp
  ultimately show ?thesis by (simp add: dsub_def)
qed

lemma double_of_nat_zero [simp]: "double_of_nat 0 = Finite 0"
  by (simp add: double_of_nat_def)

lemma ddiv_positive_nat_by_zero:
  assumes "0 < n"
  shows "ddiv (double_of_nat n) (Finite 0) = PInf"
proof -
  have "round_value 1 \<le> round_value (real n)"
    using assms by (intro round_value_mono) simp_all
  then have pos: "0 < round_value (real n)"
    by simp
  show ?thesis
    using pos assms by (simp add: double_of_nat_def round_to_double_def)
qed

section \<open>The concrete tunnel, evaluated\<close>

text \<open>
  The doubles nearest to 0.1, 0.13 and 0.3, the seconds of 100 microseconds, and the
  candidates of the concrete tunnel: 4500 bytes in 100 microseconds are 360000000 bit/s.
\<close>

lemma double_0_1: "round_to_double (1 / 10) = Finite (3602879701896397 / 36028797018963968)"
  using round_to_double_eval [of "1 / 10" "- 4"]
  by (simp add: round_even_def)

lemma double_0_13: "round_to_double (13 / 100) = Finite (1170935903116329 / 9007199254740992)"
  using round_to_double_eval [of "13 / 100" "- 3"]
  by (simp add: round_even_def)

lemma double_0_3: "round_to_double (3 / 10) = Finite (5404319552844595 / 18014398509481984)"
  using round_to_double_eval [of "3 / 10" "- 2"]
  by (simp add: round_even_def)

lemma GetSeconds_100us:
  "GetSeconds Time_100us = Finite (7378697629483821 / 73786976294838206464)"
  using round_to_double_eval [of "1 / 10000" "- 14"]
  by (simp add: GetSeconds_def Time_100us_def round_even_def)

lemma example_prevRate: "prevRate (example_tunnel recorder) = Finite 360000000"
proof -
  have "round_to_double (36000 * 73786976294838206464 / 7378697629483821) = Finite 360000000"
    using round_to_double_eval [of "36000 * 73786976294838206464 / 7378697629483821" 28]
    by (simp add: round_even_def)
  then show ?thesis
    by (simp add: prevRate_def example_tunnel_def double_of_nat_def GetSeconds_100us)
qed

lemma example_decrease_factor:
  "dsub (Finite 1) (ddiv (round_to_double (1 / 10)) (Finite 2)) =
   Finite (4278419646001971 / 4503599627370496)"
proof -
  have half: "round_to_double (3602879701896397 / 72057594037927936) =
      Finite (3602879701896397 / 72057594037927936)"
    using round_to_double_dyadic [of 3602879701896397 56] by simp
  have "round_to_double (1 - 3602879701896397 / 72057594037927936) =
      Finite (4278419646001971 / 4503599627370496)"
    using round_to_double_eval [of "1 - 3602879701896397 / 72057594037927936" "- 1"]
    by (simp add: round_even_def)
  then show ?thesis
    using half by (simp add: dsub_def double_0_1)
qed

lemma example_congestion_candidate:
  "dmul (Finite (4278419646001971 / 4503599627370496)) (Finite 360000000) = Finite 342000000"
  using round_to_double_eval [of "4278419646001971 / 4503599627370496 * 360000000" 28]
  by (simp add: round_even_def)

lemma example_slow_start_candidate:
  "dmul (dadd (Finite 1) (round_to_double (13 / 100))) (Finite 360000000) =
   Finite (6824971468799999 / 16777216)"
proof -
  have "round_to_double (1 + 1170935903116329 / 9007199254740992) =
      Finite (5089067578928660 / 4503599627370496)"
    using round_to_double_eval [of "1 + 1170935903116329 / 9007199254740992" 0]
    by (simp add: round_even_def)
  moreover have "round_to_double (5089067578928660 / 4503599627370496 * 360000000) =
      Finite (6824971468799999 / 16777216)"
    using round_to_double_eval [of "5089067578928660 / 4503599627370496 * 360000000" 28]
    by (simp add: round_even_def)
  ultimately show ?thesis
    by (simp add: double_0_13)
qed

section \<open>Facts about UpdateRate\<close>

text \<open>
  What \<open>UpdateRate\<close> leaves in each member.
\<close>

lemma UpdateRate_m_rateThresh:
  "m_rateThresh (UpdateRate env t) =
     (if GetMarkedBytes env (m_ecnRecorder t) \<noteq> 0
      then DataRate_of_double env
             (dmul (dsub (Finite 1) (ddiv (m_alpha t) (Finite 2))) (prevRate t))
      else m_rateThresh t)"
  by (simp add: UpdateRate_def Let_def split_def)

lemma UpdateRate_m_rate:
  "m_rate (UpdateRate env t) =
     max (min (DataRate_of_double env
                 (if GetMarkedBytes env (m_ecnRecorder t) \<noteq> 0
                  then dmul (dsub (Finite 1) (ddiv (m_alpha t) (Finite 2))) (prevRate t)
                  else if m_rate t < m_rateThresh t
                  then dmul (dadd (Finite 1) (m_weight t)) (prevRate t)
                  else dadd (prevRate t) (dmul (m_weight t) (Finite 10000000))))
              (m_rateMax t)) (m_rateMin t)"
  by (simp add: UpdateRate_def Let_def split_def DataRate_10Mbps_def double_of_nat_def)

lemma UpdateRate_unchanged:
  "m_alpha (UpdateRate env t) = m_alpha t"
  "m_g (UpdateRate env t) = m_g t"
  "m_weight (UpdateRate env t) = m_weight t"
  "m_weightRequest (UpdateRate env t) = m_weightRequest t"
  "m_rateMax (UpdateRate env t) = m_rateMax t"
  "m_rateMin (UpdateRate env t) = m_rateMin t"
  "m_sentBytes (UpdateRate env t) = m_sentBytes t"
  "m_interval (UpdateRate env t) = m_interval t"
  "m_flowList (UpdateRate env t) = m_flowList t"
  "m_ecnRecorder (UpdateRate env t) = m_ecnRecorder t"
  "m_timer (UpdateRate env t) = m_timer t"
  "heap (UpdateRate env t) = heap t"
  "calls (UpdateRate env t) = calls t @ [Ev_GetMarkedBytes]"
  by (simp_all add: UpdateRate_def Let_def split_def)

lemma example_env_reads:
  "GetMarkedRatio example_env = fst"
  "GetMarkedBytes example_env = snd"
  "double_to_uint64_undefined example_env = (\<lambda>d. if d = NaN then 2 ^ 63 else 0)"
  by (simp_all add: example_env_def)

lemma example_tunnel_fields:
  "m_alpha (example_tunnel recorder) = round_to_double (1 / 10)"
  "m_g (example_tunnel recorder) = Finite (1 / 16)"
  "m_weight (example_tunnel recorder) = round_to_double (13 / 100)"
  "m_rate (example_tunnel recorder) = 1000000"
  "m_rateMax (example_tunnel recorder) = 1000000000"
  "m_rateMin (example_tunnel recorder) = 1000000"
  "m_rateThresh (example_tunnel recorder) = 500000000"
  "m_sentBytes (example_tunnel recorder) = 4500"
  "m_interval (example_tunnel recorder) = 100000"
  "m_flowList (example_tunnel recorder) = [(1, 10), (2, 11), (3, 12)]"
  "m_ecnRecorder (example_tunnel recorder) = recorder"
  "heap (example_tunnel recorder) = example_heap"
  "calls (example_tunnel recorder) = []"
  by (simp_all add: example_tunnel_def DataRate_1Mbps_def DataRate_1000Mbps_def
      DataRate_500Mbps_def Time_100us_def)

lemma example_prevRate_parts:
  "ddiv (double_of_nat 36000) (GetSeconds 100000) = Finite 360000000"
  using example_prevRate [of undefined] by (simp add: prevRate_def example_tunnel_fields)

lemma example_zero_interval:
  "DataRate_of_double example_env
     (dmul (Finite (4278419646001971 / 4503599627370496))
        (ddiv (double_of_nat 36000) (GetSeconds 0))) = 0"
  "DataRate_of_double example_env
     (dmul (Finite (4278419646001971 / 4503599627370496))
        (ddiv (Finite 0) (GetSeconds 0))) = 9223372036854775808"
  by (simp_all add: GetSeconds_def ddiv_positive_nat_by_zero DataRate_of_double_def
      example_env_reads)

lemma example_congestion_rate: "DataRate_of_double example_env (Finite 342000000) = 342000000"
  by (simp add: DataRate_of_double_def)

lemma example_increase_rates:
  "DataRate_of_double example_env (Finite (6824971468799999 / 16777216)) = 406799999"
  "dadd (Finite 360000000) (dmul (round_to_double (13 / 100)) (Finite 10000000)) =
   Finite 361300000"
  "DataRate_of_double example_env (Finite 361300000) = 361300000"
proof -
  show "DataRate_of_double example_env (Finite (6824971468799999 / 16777216)) = 406799999"
    by (simp add: DataRate_of_double_def)
  have "round_to_double (1170935903116329 / 9007199254740992 * 10000000) = Finite 1300000"
    using round_to_double_eval [of "1170935903116329 / 9007199254740992 * 10000000" 20]
    by (simp add: round_even_def)
  moreover have "round_to_double (360000000 + 1300000) = Finite 361300000"
    by simp
  ultimately show "dadd (Finite 360000000) (dmul (round_to_double (13 / 100)) (Finite 10000000)) =
      Finite 361300000"
    by (simp add: double_0_13)
  show "DataRate_of_double example_env (Finite 361300000) = 361300000"
    by (simp add: DataRate_of_double_def)
qed

section \<open>Facts about UpdateInfo\<close>

text \<open>
  The loop in closed form, for a table whose handles are pairwise distinct: each flow
  that is not finished is updated once and its weight, read after the update, is added;
  the other flows are only asked whether they are finished. For every table, the loop is
  the fold of the spec's step \<open>refresh_flow\<close> over the table's handles.
\<close>

lemma UpdateInfo_loop_distinct:
  "distinct (map snd fl) \<Longrightarrow>
   UpdateInfo_loop env fl (h, w, cs) =
     ((\<lambda>a. if a \<in> snd ` set fl \<and> \<not> IsFinished env (h a)
           then Flow_UpdateInfo env (h a) else h a),
      foldl dadd w (map (\<lambda>e. GetWeight env (Flow_UpdateInfo env (h (snd e))))
                     (filter (\<lambda>e. \<not> IsFinished env (h (snd e))) fl)),
      cs @ concat (map (\<lambda>e. if IsFinished env (h (snd e)) then [Ev_IsFinished (snd e)]
                              else [Ev_IsFinished (snd e), Ev_FlowUpdateInfo (snd e),
                                    Ev_GetWeight (snd e)]) fl))"
proof (induction fl arbitrary: h w cs)
  case Nil
  then show ?case by simp
next
  case (Cons x rest)
  obtain k a where x: "x = (k, a)" by (cases x)
  from Cons.prems x have fresh: "a \<notin> snd ` set rest" and dist: "distinct (map snd rest)"
    by auto
  show ?case
  proof (cases "IsFinished env (h a)")
    case True
    have "UpdateInfo_loop env (x # rest) (h, w, cs) =
          UpdateInfo_loop env rest (h, w, cs @ [Ev_IsFinished a])"
      using True x by simp
    also note Cons.IH [OF dist]
    finally show ?thesis using True x by (auto simp: fun_eq_iff)
  next
    case False
    define h' where "h' = h(a := Flow_UpdateInfo env (h a))"
    have same: "h' (snd e) = h (snd e)" if "e \<in> set rest" for e
      using that fresh by (auto simp: h'_def)
    have filt: "filter (\<lambda>e. \<not> IsFinished env (h' (snd e))) rest =
                filter (\<lambda>e. \<not> IsFinished env (h (snd e))) rest"
      by (rule filter_cong) (simp_all add: same)
    have weights: "map (\<lambda>e. GetWeight env (Flow_UpdateInfo env (h' (snd e))))
                     (filter (\<lambda>e. \<not> IsFinished env (h (snd e))) rest) =
                   map (\<lambda>e. GetWeight env (Flow_UpdateInfo env (h (snd e))))
                     (filter (\<lambda>e. \<not> IsFinished env (h (snd e))) rest)"
      by (rule map_cong) (simp_all add: same)
    have evs: "map (\<lambda>e. if IsFinished env (h' (snd e)) then [Ev_IsFinished (snd e)]
                          else [Ev_IsFinished (snd e), Ev_FlowUpdateInfo (snd e),
                                Ev_GetWeight (snd e)]) rest =
               map (\<lambda>e. if IsFinished env (h (snd e)) then [Ev_IsFinished (snd e)]
                          else [Ev_IsFinished (snd e), Ev_FlowUpdateInfo (snd e),
                                Ev_GetWeight (snd e)]) rest"
      by (rule map_cong) (simp_all add: same)
    have heaps: "(\<lambda>b. if b \<in> snd ` set rest \<and> \<not> IsFinished env (h' b)
                      then Flow_UpdateInfo env (h' b) else h' b) =
                 (\<lambda>b. if b \<in> snd ` set (x # rest) \<and> \<not> IsFinished env (h b)
                      then Flow_UpdateInfo env (h b) else h b)"
      using fresh False x by (auto simp: fun_eq_iff h'_def)
    have "UpdateInfo_loop env (x # rest) (h, w, cs) =
          UpdateInfo_loop env rest
            (h', dadd w (GetWeight env (Flow_UpdateInfo env (h a))),
             cs @ [Ev_IsFinished a, Ev_FlowUpdateInfo a, Ev_GetWeight a])"
      using False x by (simp add: h'_def)
    also note Cons.IH [OF dist]
    finally show ?thesis
      using False x by (simp add: filt weights evs heaps)
  qed
qed

lemma UpdateInfo_loop_fold:
  "UpdateInfo_loop env fl acc = foldl (refresh_flow env) acc (map snd fl)"
proof (induction fl arbitrary: acc)
  case Nil
  then show ?case by (cases acc) simp
next
  case (Cons x rest)
  obtain k a where x: "x = (k, a)" by (cases x)
  obtain h w cs where acc: "acc = (h, w, cs)" by (cases acc)
  show ?case
    using Cons.IH by (simp add: x acc refresh_flow_def Let_def)
qed

lemma UpdateInfo_m_alpha:
  "m_alpha (UpdateInfo env t) =
     dadd (dmul (dsub (Finite 1) (m_g t)) (m_alpha t))
       (dmul (m_g t) (GetMarkedRatio env (m_ecnRecorder t)))"
  by (simp add: UpdateInfo_def Let_def split_def)

lemma UpdateInfo_unchanged:
  "m_g (UpdateInfo env t) = m_g t"
  "m_weight (UpdateInfo env t) = m_weight t"
  "m_rate (UpdateInfo env t) = m_rate t"
  "m_rateMax (UpdateInfo env t) = m_rateMax t"
  "m_rateMin (UpdateInfo env t) = m_rateMin t"
  "m_rateThresh (UpdateInfo env t) = m_rateThresh t"
  "m_sentBytes (UpdateInfo env t) = m_sentBytes t"
  "m_interval (UpdateInfo env t) = m_interval t"
  "m_flowList (UpdateInfo env t) = m_flowList t"
  "m_ecnRecorder (UpdateInfo env t) = m_ecnRecorder t"
  "m_timer (UpdateInfo env t) = m_timer t"
  by (simp_all add: UpdateInfo_def Let_def split_def)

lemma UpdateInfo_loop_results:
  "m_weightRequest (UpdateInfo env t) =
     fst (snd (UpdateInfo_loop env (m_flowList t) (heap t, Finite 0, calls t @ [Ev_GetMarkedRatio])))"
  "heap (UpdateInfo env t) =
     fst (UpdateInfo_loop env (m_flowList t) (heap t, Finite 0, calls t @ [Ev_GetMarkedRatio]))"
  "calls (UpdateInfo env t) =
     snd (snd (UpdateInfo_loop env (m_flowList t) (heap t, Finite 0, calls t @ [Ev_GetMarkedRatio])))"
  by (simp_all add: UpdateInfo_def Let_def split_def)

lemma prevRate_UpdateInfo: "prevRate (UpdateInfo env t) = prevRate t"
  by (simp add: prevRate_def UpdateInfo_unchanged)

lemma example_alpha_refresh:
  "dadd (dmul (dsub (Finite 1) (Finite (1 / 16))) (Finite (3602879701896397 / 36028797018963968)))
     (dmul (Finite (1 / 16)) (Finite (5404319552844595 / 18014398509481984))) =
   Finite (8106479329266893 / 72057594037927936)"
proof -
  have u: "round_to_double (15 / 16) = Finite (15 / 16)"
    using round_to_double_dyadic [of 15 4] by simp
  have p: "round_to_double (15 / 16 * (3602879701896397 / 36028797018963968)) = Finite (3 / 32)"
    using round_to_double_eval [of "15 / 16 * (3602879701896397 / 36028797018963968)" "- 4"]
    by (simp add: round_even_def)
  have q: "round_to_double (1 / 16 * (5404319552844595 / 18014398509481984)) =
      Finite (5404319552844595 / 288230376151711744)"
    using round_to_double_dyadic [of 5404319552844595 58] by simp
  have s: "round_to_double (3 / 32 + 5404319552844595 / 288230376151711744) =
      Finite (8106479329266893 / 72057594037927936)"
    using round_to_double_eval [of "3 / 32 + 5404319552844595 / 288230376151711744" "- 4"]
    by (simp add: round_even_def)
  show ?thesis
    using u p q s by (simp add: dsub_def)
qed

lemma example_tick_candidate:
  "dmul (dsub (Finite 1) (ddiv (Finite (8106479329266893 / 72057594037927936)) (Finite 2)))
     (Finite 360000000) = Finite 339750000"
proof -
  have h: "round_to_double (8106479329266893 / 72057594037927936 / 2) =
      Finite (8106479329266893 / 144115188075855872)"
    using round_to_double_dyadic [of 8106479329266893 57] by simp
  have f: "round_to_double (1 - 8106479329266893 / 144115188075855872) =
      Finite (8500544296661811 / 9007199254740992)"
    using round_to_double_eval [of "1 - 8106479329266893 / 144115188075855872" "- 1"]
    by (simp add: round_even_def)
  have c: "round_to_double (8500544296661811 / 9007199254740992 * 360000000) = Finite 339750000"
    using round_to_double_eval [of "8500544296661811 / 9007199254740992 * 360000000" 28]
    by (simp add: round_even_def)
  show ?thesis
    using h f c by (simp add: dsub_def)
qed

lemma example_tick_rate: "DataRate_of_double example_env (Finite 339750000) = 339750000"
  by (simp add: DataRate_of_double_def)

lemma example_refresh:
  "foldl (refresh_flow example_env) (example_heap, Finite 0, [Ev_GetMarkedRatio]) [10, 11, 12] =
   (example_heap(10 := (False, 3), 12 := (False, 4)), Finite 7,
    [Ev_GetMarkedRatio, Ev_IsFinished 10, Ev_FlowUpdateInfo 10, Ev_GetWeight 10,
     Ev_IsFinished 11, Ev_IsFinished 12, Ev_FlowUpdateInfo 12, Ev_GetWeight 12])"
  by (simp add: refresh_flow_def example_env_def example_heap_def double_of_nat_def)

section \<open>Facts about Update, construction and the lifetime\<close>

lemma Update_fields:
  "m_sentBytes (Update env t) = 0"
  "m_rate (Update env t) = m_rate (ScheduleFlow env (UpdateRate env (UpdateInfo env t)))"
  "m_rateMin (Update env t) = m_rateMin (ScheduleFlow env (UpdateRate env (UpdateInfo env t)))"
  "m_rateMax (Update env t) = m_rateMax (ScheduleFlow env (UpdateRate env (UpdateInfo env t)))"
  by (simp_all add: Update_def Let_def)

lemma round_to_double_sixteenth: "round_to_double (1 / 16) = Finite (1 / 16)"
  using round_to_double_dyadic [of 1 4] by simp

lemma round_value_sixteenth: "round_value (1 / 16) = 1 / 16"
  using round_value_exact [of 1 "- 4"] by (simp add: power_int_minus_divide)

lemma default_gamma: "ddiv (Finite 1.0) (Finite 16) = Finite (1 / 16)"
  by (simp add: round_to_double_sixteenth)

lemma round_to_double_Finite:
  assumes "round_to_double v = Finite g"
  shows "g = round_value v"
  using assms by (simp add: round_to_double_def split: if_splits)

lemma ConstructSelf_Inr:
  assumes "ConstructSelf cfg t0 = Inr t"
  shows "m_alpha t = m_alpha t0"
    and "m_rate t = m_rate t0"
    and "m_ecnRecorder t = m_ecnRecorder t0"
    and "m_g t = (case Gamma cfg of None \<Rightarrow> Finite (1 / 16) | Some v \<Rightarrow> round_to_double v)"
    and "\<exists>g v. m_g t = Finite g \<and> 0 \<le> g \<and> g \<le> 1 \<and> g = round_value v"
    and "m_rateMin t = (case MinRate cfg of None \<Rightarrow> DataRate_1Mbps | Some v \<Rightarrow> v)"
    and "m_rateMax t = (case MaxRate cfg of None \<Rightarrow> DataRate_1000Mbps | Some v \<Rightarrow> v)"
proof -
  define gamma where
    "gamma = (case Gamma cfg of None \<Rightarrow> Finite (1 / 16) | Some v \<Rightarrow> round_to_double v)"
  have run: "DoubleChecker 0 1 gamma \<and>
      t = t0\<lparr>m_g := gamma,
             m_interval := (case Interval cfg of None \<Rightarrow> Time_100us | Some v \<Rightarrow> v),
             m_rateMax := (case MaxRate cfg of None \<Rightarrow> DataRate_1000Mbps | Some v \<Rightarrow> v),
             m_rateMin := (case MinRate cfg of None \<Rightarrow> DataRate_1Mbps | Some v \<Rightarrow> v),
             m_rateThresh := (case RateThresh cfg of None \<Rightarrow> DataRate_500Mbps | Some v \<Rightarrow> v)\<rparr>"
    using assms
    by (cases "Gamma cfg")
      (auto simp: ConstructSelf_def Let_def gamma_def round_to_double_sixteenth
        split: if_splits)
  then show "m_alpha t = m_alpha t0" "m_rate t = m_rate t0" "m_ecnRecorder t = m_ecnRecorder t0"
    "m_g t = (case Gamma cfg of None \<Rightarrow> Finite (1 / 16) | Some v \<Rightarrow> round_to_double v)"
    "m_rateMin t = (case MinRate cfg of None \<Rightarrow> DataRate_1Mbps | Some v \<Rightarrow> v)"
    "m_rateMax t = (case MaxRate cfg of None \<Rightarrow> DataRate_1000Mbps | Some v \<Rightarrow> v)"
    by (simp_all add: gamma_def)
  from run obtain g where g: "gamma = Finite g" "0 \<le> g" "g \<le> 1"
    by (cases gamma) (simp_all add: DoubleChecker_def)
  have "\<exists>v. g = round_value v"
  proof (cases "Gamma cfg")
    case None
    then have "g = 1 / 16" using g(1) by (simp add: gamma_def)
    then show ?thesis using round_value_sixteenth by metis
  next
    case (Some v)
    then have "round_to_double v = Finite g" using g(1) by (simp add: gamma_def)
    then show ?thesis using round_to_double_Finite by blast
  qed
  with g run show "\<exists>g v. m_g t = Finite g \<and> 0 \<le> g \<and> g \<le> 1 \<and> g = round_value v"
    by auto
qed

lemma CreateObject_Inr:
  fixes t :: "('f, 'e, 'w::len word, 'k) C3Tunnel"
  assumes "CreateObject recorder h cfg = Inr t"
  shows "m_alpha t = Finite 1"
    and "m_rate t = 0"
    and "m_ecnRecorder t = recorder"
    and "m_g t = (case Gamma cfg of None \<Rightarrow> Finite (1 / 16) | Some v \<Rightarrow> round_to_double v)"
    and "\<exists>g v. m_g t = Finite g \<and> 0 \<le> g \<and> g \<le> 1 \<and> g = round_value v"
    and "m_rateMin t = (case MinRate cfg of None \<Rightarrow> DataRate_1Mbps | Some v \<Rightarrow> v)"
    and "m_rateMax t = (case MaxRate cfg of None \<Rightarrow> DataRate_1000Mbps | Some v \<Rightarrow> v)"
  using ConstructSelf_Inr [OF assms [unfolded CreateObject_def]]
  by (simp_all add: C3Tunnel_ctor_def)

lemma CreateObject_no_attributes:
  "CreateObject recorder h no_attributes =
     Inr ((C3Tunnel_ctor recorder h)
       \<lparr>m_g := Finite (1 / 16), m_interval := Time_100us, m_rateMax := DataRate_1000Mbps,
         m_rateMin := DataRate_1Mbps, m_rateThresh := DataRate_500Mbps\<rparr>)"
  by (simp add: CreateObject_def ConstructSelf_def no_attributes_def Let_def DoubleChecker_def
      TimeChecker_def Time_100us_def Time_Max_def round_to_double_sixteenth)

lemma perform_keeps:
  assumes "x \<noteq> Op_Update"
  shows "m_alpha (perform env x t) = m_alpha t"
    and "m_g (perform env x t) = m_g t"
    and "m_rate (perform env x t) = m_rate t"
    and "m_rateMin (perform env x t) = m_rateMin t"
    and "m_rateMax (perform env x t) = m_rateMax t"
    and "m_ecnRecorder (perform env x t) = m_ecnRecorder t"
  using assms
  by (cases x; simp add: DoInitialize_def Forward_def SetWeight_def SetRateThresh_def)+

lemma run_before_first_tick:
  assumes "Op_Update \<notin> set ops"
  shows "m_alpha (run env ops t) = m_alpha t \<and> m_g (run env ops t) = m_g t \<and>
         m_rate (run env ops t) = m_rate t \<and> m_ecnRecorder (run env ops t) = m_ecnRecorder t"
  using assms
proof (induction ops arbitrary: t)
  case Nil
  then show ?case by simp
next
  case (Cons x xs)
  then have "x \<noteq> Op_Update" and "Op_Update \<notin> set xs" by auto
  with Cons.IH [of "perform env x t"] show ?case
    by (simp add: perform_keeps)
qed

lemma perform_bounds:
  assumes "\<And>s. m_rate (ScheduleFlow env s) = m_rate s \<and>
                m_rateMin (ScheduleFlow env s) = m_rateMin s \<and>
                m_rateMax (ScheduleFlow env s) = m_rateMax s"
  shows "m_rateMin (perform env x t) = m_rateMin t \<and> m_rateMax (perform env x t) = m_rateMax t"
  by (cases x)
    (simp_all add: DoInitialize_def Forward_def SetWeight_def SetRateThresh_def Update_fields assms
      UpdateRate_unchanged UpdateInfo_unchanged)

lemma Update_clamps_rate:
  assumes sf: "\<And>s. m_rate (ScheduleFlow env s) = m_rate s \<and>
                m_rateMin (ScheduleFlow env s) = m_rateMin s \<and>
                m_rateMax (ScheduleFlow env s) = m_rateMax s"
    and "m_rateMin t \<le> m_rateMax t"
  shows "m_rateMin t \<le> m_rate (Update env t) \<and> m_rate (Update env t) \<le> m_rateMax t"
  using assms(2)
  by (simp add: Update_fields sf UpdateRate_m_rate UpdateInfo_unchanged)

lemma run_clamps_rate:
  assumes sf: "\<And>s. m_rate (ScheduleFlow env s) = m_rate s \<and>
                m_rateMin (ScheduleFlow env s) = m_rateMin s \<and>
                m_rateMax (ScheduleFlow env s) = m_rateMax s"
    and "m_rateMin t \<le> m_rateMax t"
    and "Op_Update \<in> set ops \<or> (m_rateMin t \<le> m_rate t \<and> m_rate t \<le> m_rateMax t)"
  shows "m_rateMin t \<le> m_rate (run env ops t) \<and> m_rate (run env ops t) \<le> m_rateMax t"
  using assms(2,3)
proof (induction ops arbitrary: t)
  case Nil
  then show ?case by simp
next
  case (Cons x xs)
  have bounds: "m_rateMin (perform env x t) = m_rateMin t"
    "m_rateMax (perform env x t) = m_rateMax t"
    using perform_bounds [OF sf, of x t] by simp_all
  show ?case
  proof (cases "x = Op_Update")
    case True
    then have "m_rateMin t \<le> m_rate (perform env x t) \<and> m_rate (perform env x t) \<le> m_rateMax t"
      using Update_clamps_rate [OF sf Cons.prems(1)] by simp
    with Cons.IH [of "perform env x t"] Cons.prems(1) show ?thesis
      by (simp add: bounds)
  next
    case False
    then have "m_rate (perform env x t) = m_rate t"
      by (simp add: perform_keeps)
    with Cons.IH [of "perform env x t"] Cons.prems False show ?thesis
      by (simp add: bounds)
  qed
qed

lemma example_created_Inr:
  "CreateObject recorder example_heap no_attributes = Inr (example_created recorder)"
  by (simp add: example_created_def CreateObject_no_attributes)

lemma example_env_ScheduleFlow:
  "m_rate (ScheduleFlow example_env s) = m_rate s \<and>
   m_rateMin (ScheduleFlow example_env s) = m_rateMin s \<and>
   m_rateMax (ScheduleFlow example_env s) = m_rateMax s"
  by (simp add: example_env_def Forward_def)

lemma example_first_refresh:
  "dadd (dmul (dsub (Finite 1) (Finite (1 / 16))) (Finite 1))
     (dmul (Finite (1 / 16)) (Finite (1 / 4))) = Finite (61 / 64)"
proof -
  have u: "round_to_double (15 / 16) = Finite (15 / 16)"
    using round_to_double_dyadic [of 15 4] by simp
  have q: "round_to_double (1 / 64) = Finite (1 / 64)"
    using round_to_double_dyadic [of 1 6] by simp
  have s: "round_to_double (61 / 64) = Finite (61 / 64)"
    using round_to_double_dyadic [of 61 6] by simp
  show ?thesis
    by (simp add: dsub_def u q s)
qed

lemma example_first_tick_rate:
  "ddiv (double_of_nat 12000) (GetSeconds 100000) = Finite 120000000"
  "dmul (Finite (1 / 2)) (Finite 120000000) = Finite 60000000"
  "DataRate_of_double example_env (Finite 60000000) = 60000000"
proof -
  have "round_to_double (12000 * 73786976294838206464 / 7378697629483821) = Finite 120000000"
    using round_to_double_eval [of "12000 * 73786976294838206464 / 7378697629483821" 26]
    by (simp add: round_even_def)
  then show "ddiv (double_of_nat 12000) (GetSeconds 100000) = Finite 120000000"
    using GetSeconds_100us by (simp add: double_of_nat_def Time_100us_def)
  show "dmul (Finite (1 / 2)) (Finite 120000000) = Finite 60000000"
    by simp
  show "DataRate_of_double example_env (Finite 60000000) = 60000000"
    by (simp add: DataRate_of_double_def)
qed

section \<open>The rate controller\<close>

text \<open>
  C1. On every tick whose recorder reports marked bytes, whatever the value of alpha,
  \<open>UpdateRate\<close> takes as candidate the data rate made from
  \<open>(1 - alpha / 2) * prevRate\<close>, where \<open>prevRate\<close> is \<open>m_sentBytes * 8\<close> divided by the
  interval in seconds, each operation rounded to double and the product then truncated to
  whole bits per second; it stores the candidate itself, not clamped, in \<open>m_rateThresh\<close>
  and the candidate clamped to \<open>[m_rateMin, m_rateMax]\<close> in \<open>m_rate\<close>. On a tick
  without marked bytes \<open>m_rateThresh\<close> is not touched. (With a zero interval
  \<open>prevRate\<close> is \<open>+inf\<close> or NaN, and the candidate is what the undefined conversion
  leaves for it.)
\<close>

theorem UpdateRate_congestion:
  fixes t :: "('f, 'e, 'w::len word, 'k) C3Tunnel"
  shows
    "(0 < GetMarkedBytes env (m_ecnRecorder t) \<longrightarrow>
        m_rateThresh (UpdateRate env t) =
          DataRate_of_double env
            (dmul (dsub (Finite 1) (ddiv (m_alpha t) (Finite 2)))
               (ddiv (double_of_nat (unat (m_sentBytes t * 8))) (GetSeconds (m_interval t)))) \<and>
        m_rate (UpdateRate env t) =
          max (min (DataRate_of_double env
                 (dmul (dsub (Finite 1) (ddiv (m_alpha t) (Finite 2)))
                    (ddiv (double_of_nat (unat (m_sentBytes t * 8))) (GetSeconds (m_interval t)))))
               (m_rateMax t)) (m_rateMin t)) \<and>
     (GetMarkedBytes env (m_ecnRecorder t) = 0 \<longrightarrow>
        m_rateThresh (UpdateRate env t) = m_rateThresh t)"
  by (simp add: UpdateRate_m_rateThresh UpdateRate_m_rate prevRate_def)

theorem UpdateRate_congestion_witness:
  "0 < GetMarkedBytes example_env (m_ecnRecorder (example_tunnel (Finite 0, 500))) \<and>
   m_rateThresh (UpdateRate example_env (example_tunnel (Finite 0, 500))) = 342000000 \<and>
   m_rate (UpdateRate example_env (example_tunnel (Finite 0, 500))) = 342000000 \<and>
   0 < GetMarkedBytes example_env
         (m_ecnRecorder ((example_tunnel (Finite 0, 500))\<lparr>m_rateMax := 300000000\<rparr>)) \<and>
   m_rateThresh (UpdateRate example_env
      ((example_tunnel (Finite 0, 500))\<lparr>m_rateMax := 300000000\<rparr>)) = 342000000 \<and>
   m_rate (UpdateRate example_env
      ((example_tunnel (Finite 0, 500))\<lparr>m_rateMax := 300000000\<rparr>)) = 300000000 \<and>
   0 < GetMarkedBytes example_env
         (m_ecnRecorder ((example_tunnel (Finite 0, 500))\<lparr>m_interval := 0\<rparr>)) \<and>
   m_rateThresh (UpdateRate example_env
      ((example_tunnel (Finite 0, 500))\<lparr>m_interval := 0\<rparr>)) = 0 \<and>
   m_rate (UpdateRate example_env
      ((example_tunnel (Finite 0, 500))\<lparr>m_interval := 0\<rparr>)) = 1000000 \<and>
   0 < GetMarkedBytes example_env
         (m_ecnRecorder ((example_tunnel (Finite 0, 500))\<lparr>m_interval := 0, m_sentBytes := 0\<rparr>)) \<and>
   m_rateThresh (UpdateRate example_env
      ((example_tunnel (Finite 0, 500))\<lparr>m_interval := 0, m_sentBytes := 0\<rparr>)) =
     9223372036854775808 \<and>
   m_rate (UpdateRate example_env
      ((example_tunnel (Finite 0, 500))\<lparr>m_interval := 0, m_sentBytes := 0\<rparr>)) = 1000000000 \<and>
   GetMarkedBytes example_env (m_ecnRecorder (example_tunnel (Finite 0, 0))) = 0 \<and>
   m_rateThresh (UpdateRate example_env (example_tunnel (Finite 0, 0))) = 500000000"
  using UpdateRate_congestion [of example_env "example_tunnel (Finite 0, 500)"]
    UpdateRate_congestion [of example_env "(example_tunnel (Finite 0, 500))\<lparr>m_rateMax := 300000000\<rparr>"]
    UpdateRate_congestion [of example_env "(example_tunnel (Finite 0, 500))\<lparr>m_interval := 0\<rparr>"]
    UpdateRate_congestion
      [of example_env "(example_tunnel (Finite 0, 500))\<lparr>m_interval := 0, m_sentBytes := 0\<rparr>"]
    UpdateRate_congestion [of example_env "example_tunnel (Finite 0, 0)"]
  by (simp add: example_env_reads example_tunnel_fields example_prevRate_parts
      example_decrease_factor example_congestion_candidate example_congestion_rate
      example_zero_interval
      del: dadd.simps dmul.simps ddiv.simps)

text \<open>
  C2. On every tick whose recorder reports no marked bytes, \<open>UpdateRate\<close> compares the
  rate stored before the tick with \<open>m_rateThresh\<close>: below the threshold the candidate
  is the data rate made from \<open>(1 + weight) * prevRate\<close>, otherwise from
  \<open>prevRate + weight * 10000000\<close> (the bit rate of 10Mbps), each operation rounded to
  double and the result truncated; the new rate is the candidate clamped, and
  \<open>m_rateThresh\<close> keeps its value.
\<close>

theorem UpdateRate_no_congestion:
  fixes t :: "('f, 'e, 'w::len word, 'k) C3Tunnel"
  assumes "GetMarkedBytes env (m_ecnRecorder t) = 0"
  shows
    "(m_rate t < m_rateThresh t \<longrightarrow>
        m_rate (UpdateRate env t) =
          max (min (DataRate_of_double env
                 (dmul (dadd (Finite 1) (m_weight t))
                    (ddiv (double_of_nat (unat (m_sentBytes t * 8))) (GetSeconds (m_interval t)))))
               (m_rateMax t)) (m_rateMin t)) \<and>
     (\<not> m_rate t < m_rateThresh t \<longrightarrow>
        m_rate (UpdateRate env t) =
          max (min (DataRate_of_double env
                 (dadd (ddiv (double_of_nat (unat (m_sentBytes t * 8))) (GetSeconds (m_interval t)))
                    (dmul (m_weight t) (Finite 10000000))))
               (m_rateMax t)) (m_rateMin t)) \<and>
     m_rateThresh (UpdateRate env t) = m_rateThresh t"
  using assms by (simp add: UpdateRate_m_rateThresh UpdateRate_m_rate prevRate_def)

theorem UpdateRate_no_congestion_witness:
  "GetMarkedBytes example_env (m_ecnRecorder (example_tunnel (Finite 0, 0))) = 0 \<and>
   m_rate (example_tunnel (Finite 0, 0)) < m_rateThresh (example_tunnel (Finite 0, 0)) \<and>
   m_rate (UpdateRate example_env (example_tunnel (Finite 0, 0))) = 406799999 \<and>
   m_rateThresh (UpdateRate example_env (example_tunnel (Finite 0, 0))) = 500000000 \<and>
   GetMarkedBytes example_env
     (m_ecnRecorder ((example_tunnel (Finite 0, 0))\<lparr>m_rate := 600000000\<rparr>)) = 0 \<and>
   \<not> m_rate ((example_tunnel (Finite 0, 0))\<lparr>m_rate := 600000000\<rparr>) <
       m_rateThresh ((example_tunnel (Finite 0, 0))\<lparr>m_rate := 600000000\<rparr>) \<and>
   m_rate (UpdateRate example_env ((example_tunnel (Finite 0, 0))\<lparr>m_rate := 600000000\<rparr>)) =
     361300000"
  using UpdateRate_no_congestion [of example_env "example_tunnel (Finite 0, 0)"]
    UpdateRate_no_congestion [of example_env "(example_tunnel (Finite 0, 0))\<lparr>m_rate := 600000000\<rparr>"]
  by (simp add: example_env_reads example_tunnel_fields example_prevRate_parts
      example_slow_start_candidate example_increase_rates
      del: dadd.simps dmul.simps ddiv.simps)

text \<open>
  C3. Whatever candidate the tick computes, on either branch and also when the
  conversion of the candidate to a data rate is out of range, the rate that
  \<open>UpdateRate\<close> stores lies between \<open>m_rateMin\<close> and \<open>m_rateMax\<close>, provided
  \<open>m_rateMin \<le> m_rateMax\<close>.
\<close>

theorem UpdateRate_rate_in_bounds:
  fixes t :: "('f, 'e, 'w::len word, 'k) C3Tunnel"
  assumes "m_rateMin t \<le> m_rateMax t"
  shows "m_rateMin t \<le> m_rate (UpdateRate env t) \<and> m_rate (UpdateRate env t) \<le> m_rateMax t"
  using assms by (simp add: UpdateRate_m_rate)

theorem UpdateRate_rate_in_bounds_witness:
  "m_rateMin (example_tunnel (Finite 0, 500)) \<le> m_rateMax (example_tunnel (Finite 0, 500)) \<and>
   m_rateMin (example_tunnel (Finite 0, 500)) \<le>
     m_rate (UpdateRate example_env (example_tunnel (Finite 0, 500))) \<and>
   m_rate (UpdateRate example_env (example_tunnel (Finite 0, 500))) \<le>
     m_rateMax (example_tunnel (Finite 0, 500))"
proof -
  have bounds: "m_rateMin (example_tunnel (Finite 0, 500)) \<le> m_rateMax (example_tunnel (Finite 0, 500))"
    by (simp add: example_tunnel_fields)
  from UpdateRate_rate_in_bounds [OF bounds, of example_env] bounds show ?thesis
    by blast
qed

section \<open>The stored rate over the tunnel's lifetime\<close>

text \<open>
  C4, as stated: at every point of the tunnel's lifetime, also right after construction
  and before the first tick, the stored rate lies within \<open>[m_rateMin, m_rateMax]\<close>.
  It fails on the freshly constructed tunnel: the constructor stores the rate 0 and the
  attribute table sets \<open>m_rateMin\<close> to 1Mbps.
\<close>

theorem fresh_tunnel_rate_below_rateMin:
  "CreateObject (Finite (1 / 4), 500) example_heap no_attributes =
     Inr (example_created (Finite (1 / 4), 500)) \<and>
   m_rate (example_created (Finite (1 / 4), 500)) = 0 \<and>
   m_rateMin (example_created (Finite (1 / 4), 500)) = 1000000 \<and>
   m_rateMax (example_created (Finite (1 / 4), 500)) = 1000000000 \<and>
   \<not> (m_rateMin (example_created (Finite (1 / 4), 500)) \<le>
        m_rate (example_created (Finite (1 / 4), 500)) \<and>
      m_rate (example_created (Finite (1 / 4), 500)) \<le>
        m_rateMax (example_created (Finite (1 / 4), 500)))"
  by (simp add: example_created_def CreateObject_no_attributes C3Tunnel_ctor_def
      DataRate_1Mbps_def DataRate_1000Mbps_def)

text \<open>
  C4, amended: from the end of the first tick on, the stored rate lies within
  \<open>[m_rateMin, m_rateMax]\<close>, for a tunnel configured with \<open>m_rateMin \<le> m_rateMax\<close>
  and a \<open>ScheduleFlow\<close> that leaves the rate and its two bounds alone; from construction
  until the first tick the stored rate is 0.
\<close>

theorem rate_in_bounds_from_first_tick:
  fixes t0 :: "('f, 'e, 'w::len word, 'k) C3Tunnel"
  assumes created: "CreateObject recorder h cfg = Inr t0"
    and bounds: "m_rateMin t0 \<le> m_rateMax t0"
    and sf: "\<And>s. m_rate (ScheduleFlow env s) = m_rate s \<and>
                m_rateMin (ScheduleFlow env s) = m_rateMin s \<and>
                m_rateMax (ScheduleFlow env s) = m_rateMax s"
  shows "(Op_Update \<in> set ops \<longrightarrow>
            m_rateMin t0 \<le> m_rate (run env ops t0) \<and> m_rate (run env ops t0) \<le> m_rateMax t0) \<and>
         (Op_Update \<notin> set ops \<longrightarrow> m_rate (run env ops t0) = 0)"
  using run_clamps_rate [OF sf bounds, of ops] run_before_first_tick [of ops env t0]
    CreateObject_Inr(2) [OF created]
  by auto

theorem rate_in_bounds_from_first_tick_witness:
  "CreateObject (Finite (1 / 4), 500) example_heap no_attributes =
     Inr (example_created (Finite (1 / 4), 500)) \<and>
   m_rateMin (example_created (Finite (1 / 4), 500)) \<le>
     m_rateMax (example_created (Finite (1 / 4), 500)) \<and>
   (\<forall>s. m_rate (ScheduleFlow example_env s) = m_rate s \<and>
        m_rateMin (ScheduleFlow example_env s) = m_rateMin s \<and>
        m_rateMax (ScheduleFlow example_env s) = m_rateMax s) \<and>
   Op_Update \<in> set [Op_DoInitialize, Op_Forward 1500, Op_Update, Op_SetWeight (Finite (1 / 8))] \<and>
   m_rateMin (example_created (Finite (1 / 4), 500)) \<le>
     m_rate (run example_env
       [Op_DoInitialize, Op_Forward 1500, Op_Update, Op_SetWeight (Finite (1 / 8))]
       (example_created (Finite (1 / 4), 500))) \<and>
   m_rate (run example_env
       [Op_DoInitialize, Op_Forward 1500, Op_Update, Op_SetWeight (Finite (1 / 8))]
       (example_created (Finite (1 / 4), 500))) \<le>
     m_rateMax (example_created (Finite (1 / 4), 500)) \<and>
   Op_Update \<notin> set [Op_DoInitialize, Op_Forward 1500] \<and>
   m_rate (run example_env [Op_DoInitialize, Op_Forward 1500]
     (example_created (Finite (1 / 4), 500))) = 0"
proof -
  have bounds: "m_rateMin (example_created (Finite (1 / 4), 500)) \<le>
      m_rateMax (example_created (Finite (1 / 4), 500))"
    by (simp add: example_created_def CreateObject_no_attributes C3Tunnel_ctor_def
        DataRate_1Mbps_def DataRate_1000Mbps_def)
  have sf: "\<And>s. m_rate (ScheduleFlow example_env s) = m_rate s \<and>
        m_rateMin (ScheduleFlow example_env s) = m_rateMin s \<and>
        m_rateMax (ScheduleFlow example_env s) = m_rateMax s"
    by (rule example_env_ScheduleFlow)
  from rate_in_bounds_from_first_tick [OF example_created_Inr bounds sf,
      of "[Op_DoInitialize, Op_Forward 1500, Op_Update, Op_SetWeight (Finite (1 / 8))]"]
    rate_in_bounds_from_first_tick [OF example_created_Inr bounds sf,
      of "[Op_DoInitialize, Op_Forward 1500]"]
    example_created_Inr bounds sf
  show ?thesis by simp
qed

section \<open>The congestion estimate and the flow aggregate\<close>

text \<open>
  C5. For \<open>alpha0\<close> in \<open>[0, 1]\<close>, \<open>g\<close> in \<open>(0, 1)\<close> and a marked ratio in
  \<open>[0, 1]\<close>, one refresh of the congestion estimate leaves
  \<open>alpha1 = (1 - g) * alpha0 + g * ratio\<close>, the expression evaluated in double
  arithmetic, and \<open>alpha1\<close> is in \<open>[0, 1]\<close> again: the four roundings do not lead out
  of the interval.
\<close>

theorem UpdateInfo_alpha:
  assumes "m_alpha t = Finite a" and "0 \<le> a" and "a \<le> 1"
    and "m_g t = Finite g" and "0 < g" and "g < 1"
    and "GetMarkedRatio env (m_ecnRecorder t) = Finite r" and "0 \<le> r" and "r \<le> 1"
  shows "m_alpha (UpdateInfo env t) =
           dadd (dmul (dsub (Finite 1) (Finite g)) (Finite a)) (dmul (Finite g) (Finite r)) \<and>
         (\<exists>a1. m_alpha (UpdateInfo env t) = Finite a1 \<and> 0 \<le> a1 \<and> a1 \<le> 1)"
proof -
  have eq: "m_alpha (UpdateInfo env t) =
      dadd (dmul (dsub (Finite 1) (Finite g)) (Finite a)) (dmul (Finite g) (Finite r))"
    by (simp only: UpdateInfo_m_alpha assms(1,4,7))
  moreover have "\<exists>a1. dadd (dmul (dsub (Finite 1) (Finite g)) (Finite a))
      (dmul (Finite g) (Finite r)) = Finite a1 \<and> 0 \<le> a1 \<and> a1 \<le> 1"
    using assms(2,3,5,6,8,9) by (intro alpha_refresh_closed) simp_all
  ultimately show ?thesis
    by (simp only: eq)
qed

theorem UpdateInfo_alpha_witness:
  "m_alpha (example_tunnel (round_to_double (3 / 10), 500)) =
     Finite (3602879701896397 / 36028797018963968) \<and>
   (0::real) \<le> 3602879701896397 / 36028797018963968 \<and>
   (3602879701896397 / 36028797018963968 :: real) \<le> 1 \<and>
   m_g (example_tunnel (round_to_double (3 / 10), 500)) = Finite (1 / 16) \<and>
   (0::real) < 1 / 16 \<and> (1 / 16 :: real) < 1 \<and>
   GetMarkedRatio example_env (m_ecnRecorder (example_tunnel (round_to_double (3 / 10), 500))) =
     Finite (5404319552844595 / 18014398509481984) \<and>
   (0::real) \<le> 5404319552844595 / 18014398509481984 \<and>
   (5404319552844595 / 18014398509481984 :: real) \<le> 1 \<and>
   m_alpha (UpdateInfo example_env (example_tunnel (round_to_double (3 / 10), 500))) =
     Finite (8106479329266893 / 72057594037927936)"
proof -
  have a: "m_alpha (example_tunnel (round_to_double (3 / 10), 500)) =
      Finite (3602879701896397 / 36028797018963968)"
    by (simp add: example_tunnel_fields double_0_1)
  have g: "m_g (example_tunnel (round_to_double (3 / 10), 500)) = Finite (1 / 16)"
    by (simp add: example_tunnel_fields)
  have r: "GetMarkedRatio example_env
      (m_ecnRecorder (example_tunnel (round_to_double (3 / 10), 500))) =
      Finite (5404319552844595 / 18014398509481984)"
    by (simp add: example_tunnel_fields example_env_reads double_0_3)
  from UpdateInfo_alpha [OF a _ _ g _ _ r] a g r show ?thesis
    by (simp add: example_alpha_refresh del: dadd.simps dmul.simps)
qed

text \<open>
  C6, as stated: for every flow table, one refresh calls \<open>UpdateInfo\<close> once on each
  flow that is not finished and sets \<open>m_weightRequest\<close> to the sum of \<open>GetWeight\<close> over
  exactly these flows. It fails on a table two of whose entries hold the same
  \<open>Ptr<C3Flow>\<close>: the flow at address 10, of weight 2 and not finished, is updated
  twice and its weight is read twice, 3 and then 4, so that \<open>m_weightRequest\<close> is 7
  where one update and one read of this one flow give 3.
\<close>

theorem UpdateInfo_aliased_flow_updated_twice:
  "m_flowList ((example_tunnel (Finite 0, 0))\<lparr>m_flowList := [(1, 10), (2, 10)]\<rparr>) =
     [(1, 10), (2, 10)] \<and>
   \<not> IsFinished example_env
       (heap ((example_tunnel (Finite 0, 0))\<lparr>m_flowList := [(1, 10), (2, 10)]\<rparr>) 10) \<and>
   GetWeight example_env (Flow_UpdateInfo example_env
       (heap ((example_tunnel (Finite 0, 0))\<lparr>m_flowList := [(1, 10), (2, 10)]\<rparr>) 10)) = Finite 3 \<and>
   calls (UpdateInfo example_env
       ((example_tunnel (Finite 0, 0))\<lparr>m_flowList := [(1, 10), (2, 10)]\<rparr>)) =
     [Ev_GetMarkedRatio, Ev_IsFinished 10, Ev_FlowUpdateInfo 10, Ev_GetWeight 10,
      Ev_IsFinished 10, Ev_FlowUpdateInfo 10, Ev_GetWeight 10] \<and>
   heap (UpdateInfo example_env
       ((example_tunnel (Finite 0, 0))\<lparr>m_flowList := [(1, 10), (2, 10)]\<rparr>)) 10 = (False, 4) \<and>
   m_weightRequest (UpdateInfo example_env
       ((example_tunnel (Finite 0, 0))\<lparr>m_flowList := [(1, 10), (2, 10)]\<rparr>)) = Finite 7 \<and>
   foldl dadd (Finite 0)
     (map (\<lambda>e. GetWeight example_env (Flow_UpdateInfo example_env
             (heap ((example_tunnel (Finite 0, 0))\<lparr>m_flowList := [(1, 10), (2, 10)]\<rparr>) (snd e))))
        (filter (\<lambda>e. \<not> IsFinished example_env
             (heap ((example_tunnel (Finite 0, 0))\<lparr>m_flowList := [(1, 10), (2, 10)]\<rparr>) (snd e)))
           (m_flowList ((example_tunnel (Finite 0, 0))\<lparr>m_flowList := [(1, 10), (2, 10)]\<rparr>)))) =
     Finite 6"
  by (simp add: UpdateInfo_loop_results example_tunnel_fields example_env_def example_heap_def
      double_of_nat_def)

text \<open>
  C6, amended: one refresh of the flow aggregate leaves every table as it was; for a
  table whose entries name pairwise distinct flows, it sets \<open>m_weightRequest\<close> to the
  sum, in double arithmetic and in the table's order, of \<open>GetWeight\<close> over the flows
  that are not finished, each read after the one \<open>UpdateInfo\<close> call on that flow; a
  finished flow adds nothing, is not updated and only has \<open>IsFinished\<close> called on it.
\<close>

theorem UpdateInfo_weightRequest:
  "m_flowList (UpdateInfo env t) = m_flowList t \<and>
   (distinct (map snd (m_flowList t)) \<longrightarrow>
      m_weightRequest (UpdateInfo env t) =
        foldl dadd (Finite 0)
          (map (\<lambda>e. GetWeight env (Flow_UpdateInfo env (heap t (snd e))))
             (filter (\<lambda>e. \<not> IsFinished env (heap t (snd e))) (m_flowList t))) \<and>
      heap (UpdateInfo env t) =
        (\<lambda>a. if a \<in> snd ` set (m_flowList t) \<and> \<not> IsFinished env (heap t a)
              then Flow_UpdateInfo env (heap t a) else heap t a) \<and>
      calls (UpdateInfo env t) =
        calls t @ [Ev_GetMarkedRatio] @
        concat (map (\<lambda>e. if IsFinished env (heap t (snd e)) then [Ev_IsFinished (snd e)]
                          else [Ev_IsFinished (snd e), Ev_FlowUpdateInfo (snd e),
                                Ev_GetWeight (snd e)]) (m_flowList t)))"
  by (simp add: UpdateInfo_unchanged UpdateInfo_loop_results UpdateInfo_loop_distinct)

theorem UpdateInfo_weightRequest_witness:
  "distinct (map snd (m_flowList (example_tunnel (Finite 0, 0)))) \<and>
   m_flowList (UpdateInfo example_env (example_tunnel (Finite 0, 0))) = [(1, 10), (2, 11), (3, 12)] \<and>
   m_weightRequest (UpdateInfo example_env (example_tunnel (Finite 0, 0))) = Finite 7 \<and>
   heap (UpdateInfo example_env (example_tunnel (Finite 0, 0))) 10 = (False, 3) \<and>
   heap (UpdateInfo example_env (example_tunnel (Finite 0, 0))) 11 = (True, 5) \<and>
   heap (UpdateInfo example_env (example_tunnel (Finite 0, 0))) 12 = (False, 4) \<and>
   calls (UpdateInfo example_env (example_tunnel (Finite 0, 0))) =
     [Ev_GetMarkedRatio, Ev_IsFinished 10, Ev_FlowUpdateInfo 10, Ev_GetWeight 10,
      Ev_IsFinished 11, Ev_IsFinished 12, Ev_FlowUpdateInfo 12, Ev_GetWeight 12]"
  using UpdateInfo_weightRequest [of example_env "example_tunnel (Finite 0, 0)"]
  by (simp add: example_env_def example_tunnel_fields example_heap_def double_of_nat_def)

section \<open>The tick\<close>

text \<open>
  C7. Every \<open>Update\<close> is, in this order: the refresh of the congestion estimate from
  the marked ratio; the refresh of the flow aggregate, which is the spec's step
  \<open>refresh_flow\<close> folded over the table; the rate computation, from the refreshed
  alpha and from the \<open>m_sentBytes\<close> and the recorder's marked bytes of before the tick;
  \<open>ScheduleFlow\<close>; the reset of the ECN recorder; \<open>m_sentBytes := 0\<close>; the timer
  scheduled after one interval. The state that \<open>Update\<close> returns is given in full in
  terms of the state it is called on, the log of calls with it; in particular
  \<open>m_sentBytes\<close> is 0 afterwards, and the rate handed to \<open>ScheduleFlow\<close> is the clamped
  candidate made from the \<open>m_sentBytes\<close> of before the reset.
\<close>

theorem Update_sequence:
  fixes t :: "('f, 'e, 'w::len word, 'k) C3Tunnel"
  shows
    "Update env t =
       (let alpha = dadd (dmul (dsub (Finite 1) (m_g t)) (m_alpha t))
                      (dmul (m_g t) (GetMarkedRatio env (m_ecnRecorder t)));
            refreshed = foldl (refresh_flow env) (heap t, Finite 0, calls t @ [Ev_GetMarkedRatio])
                          (map snd (m_flowList t));
            prevRateBps = ddiv (double_of_nat (unat (m_sentBytes t * 8)))
                            (GetSeconds (m_interval t));
            marked = GetMarkedBytes env (m_ecnRecorder t);
            candidate = DataRate_of_double env
              (if marked \<noteq> 0 then dmul (dsub (Finite 1) (ddiv alpha (Finite 2))) prevRateBps
               else if m_rate t < m_rateThresh t then dmul (dadd (Finite 1) (m_weight t)) prevRateBps
               else dadd prevRateBps (dmul (m_weight t) (Finite 10000000)));
            computed = t\<lparr>m_alpha := alpha,
                         m_weightRequest := fst (snd refreshed),
                         heap := fst refreshed,
                         m_rateThresh := (if marked \<noteq> 0 then candidate else m_rateThresh t),
                         m_rate := max (min candidate (m_rateMax t)) (m_rateMin t),
                         calls := snd (snd refreshed) @ [Ev_GetMarkedBytes]\<rparr>;
            scheduled = ScheduleFlow env computed
        in scheduled\<lparr>m_ecnRecorder := Reset env (m_ecnRecorder scheduled),
                      m_sentBytes := 0,
                      m_timer := Some (m_interval scheduled),
                      calls := calls scheduled @
                        [Ev_EcnReset, Ev_TimerSchedule (m_interval scheduled)]\<rparr>) \<and>
     m_sentBytes (Update env t) = 0"
proof -
  have computed: "UpdateRate env (UpdateInfo env t) =
      (let alpha = dadd (dmul (dsub (Finite 1) (m_g t)) (m_alpha t))
                      (dmul (m_g t) (GetMarkedRatio env (m_ecnRecorder t)));
            refreshed = foldl (refresh_flow env) (heap t, Finite 0, calls t @ [Ev_GetMarkedRatio])
                          (map snd (m_flowList t));
            prevRateBps = ddiv (double_of_nat (unat (m_sentBytes t * 8)))
                            (GetSeconds (m_interval t));
            marked = GetMarkedBytes env (m_ecnRecorder t);
            candidate = DataRate_of_double env
              (if marked \<noteq> 0 then dmul (dsub (Finite 1) (ddiv alpha (Finite 2))) prevRateBps
               else if m_rate t < m_rateThresh t then dmul (dadd (Finite 1) (m_weight t)) prevRateBps
               else dadd prevRateBps (dmul (m_weight t) (Finite 10000000)))
       in t\<lparr>m_alpha := alpha,
             m_weightRequest := fst (snd refreshed),
             heap := fst refreshed,
             m_rateThresh := (if marked \<noteq> 0 then candidate else m_rateThresh t),
             m_rate := max (min candidate (m_rateMax t)) (m_rateMin t),
             calls := snd (snd refreshed) @ [Ev_GetMarkedBytes]\<rparr>)"
    by (simp add: UpdateRate_def UpdateInfo_def Let_def split_def prevRate_def
        UpdateInfo_loop_fold DataRate_10Mbps_def double_of_nat_def)
  show ?thesis
    by (simp add: Update_def computed Let_def)
qed

theorem Update_sequence_witness:
  "m_alpha (Update example_env (example_tunnel (round_to_double (3 / 10), 500))) =
     Finite (8106479329266893 / 72057594037927936) \<and>
   m_weightRequest (Update example_env (example_tunnel (round_to_double (3 / 10), 500))) = Finite 7 \<and>
   heap (Update example_env (example_tunnel (round_to_double (3 / 10), 500))) 10 = (False, 3) \<and>
   m_rateThresh (Update example_env (example_tunnel (round_to_double (3 / 10), 500))) = 339750000 \<and>
   m_rate (Update example_env (example_tunnel (round_to_double (3 / 10), 500))) = 339750000 \<and>
   m_ecnRecorder (Update example_env (example_tunnel (round_to_double (3 / 10), 500))) =
     (Finite 0, 0) \<and>
   m_sentBytes (Update example_env (example_tunnel (round_to_double (3 / 10), 500))) = 0 \<and>
   m_timer (Update example_env (example_tunnel (round_to_double (3 / 10), 500))) = Some 100000 \<and>
   calls (Update example_env (example_tunnel (round_to_double (3 / 10), 500))) =
     [Ev_GetMarkedRatio, Ev_IsFinished 10, Ev_FlowUpdateInfo 10, Ev_GetWeight 10,
      Ev_IsFinished 11, Ev_IsFinished 12, Ev_FlowUpdateInfo 12, Ev_GetWeight 12,
      Ev_GetMarkedBytes, Ev_ForwardTarget 1500, Ev_EcnReset, Ev_TimerSchedule 100000]"
proof -
  have sf: "ScheduleFlow example_env = Forward 1500" and reset: "Reset example_env = (\<lambda>e. (Finite 0, 0))"
    by (simp_all add: example_env_def)
  have alpha: "dadd (dmul (dsub (Finite 1) (Finite (1 / 16))) (round_to_double (1 / 10)))
      (dmul (Finite (1 / 16)) (round_to_double (3 / 10))) =
      Finite (8106479329266893 / 72057594037927936)"
    using example_alpha_refresh by (simp only: double_0_1 double_0_3)
  from Update_sequence [of example_env "example_tunnel (round_to_double (3 / 10), 500)"]
  show ?thesis
    by (simp add: Let_def example_tunnel_fields example_env_reads sf reset Forward_def alpha
        example_prevRate_parts example_tick_candidate example_tick_rate example_refresh
        del: dadd.simps dmul.simps ddiv.simps foldl.simps)
qed

section \<open>Configuration and construction\<close>

text \<open>
  C8. The claim is that a gamma outside the open interval \<open>(0, 1)\<close> and an interval
  that is not positive are rejected when the tunnel is configured, so that no tick runs
  with gamma 0, gamma 1 or interval 0. The attribute's own help text says
  \<open>0 < Gamma < 1\<close>, but its checker is \<open>MakeDoubleChecker<double> (0.0, 1.0)\<close>, which
  accepts both ends, and the interval's checker \<open>MakeTimeChecker (Time (0))\<close> accepts
  a zero interval: the attribute system accepts gamma 0 together with interval 0, and
  gamma 1, and the tick then divides by a zero number of seconds, which leaves
  \<open>prevRate\<close> NaN when no byte was sent and \<open>+inf\<close> otherwise. Values strictly outside
  are rejected.
\<close>

theorem ConstructSelf_accepts_interval_ends:
  fixes t :: "('f, 'e, 'w::len word, 'k) C3Tunnel"
  shows
  "ConstructSelf (no_attributes\<lparr>Gamma := Some 0, Interval := Some 0\<rparr>) t =
     Inr (t\<lparr>m_g := Finite 0, m_interval := 0, m_rateMax := DataRate_1000Mbps,
            m_rateMin := DataRate_1Mbps, m_rateThresh := DataRate_500Mbps\<rparr>) \<and>
   ConstructSelf (no_attributes\<lparr>Gamma := Some 1\<rparr>) t =
     Inr (t\<lparr>m_g := Finite 1, m_interval := Time_100us, m_rateMax := DataRate_1000Mbps,
            m_rateMin := DataRate_1Mbps, m_rateThresh := DataRate_500Mbps\<rparr>) \<and>
   prevRate (t\<lparr>m_g := Finite 0, m_interval := 0, m_rateMax := DataRate_1000Mbps,
               m_rateMin := DataRate_1Mbps, m_rateThresh := DataRate_500Mbps\<rparr>) =
     (if unat (m_sentBytes t * 8) = 0 then NaN else PInf) \<and>
   ConstructSelf (no_attributes\<lparr>Gamma := Some 2\<rparr>) t = Inl (InvalidAttributeValue ''Gamma'') \<and>
   ConstructSelf (no_attributes\<lparr>Interval := Some (- 1)\<rparr>) t =
     Inl (InvalidAttributeValue ''Interval'')"
proof -
  have "prevRate (t\<lparr>m_g := Finite 0, m_interval := 0, m_rateMax := DataRate_1000Mbps,
               m_rateMin := DataRate_1Mbps, m_rateThresh := DataRate_500Mbps\<rparr>) =
     (if unat (m_sentBytes t * 8) = 0 then NaN else PInf)"
    using ddiv_positive_nat_by_zero [of "unat (m_sentBytes t * 8)"]
    by (simp add: prevRate_def GetSeconds_def)
  then show ?thesis
    by (simp add: ConstructSelf_def no_attributes_def Let_def DoubleChecker_def TimeChecker_def
        Time_100us_def Time_Max_def round_to_double_sixteenth)
qed

text \<open>
  C9. For every tunnel constructed with no gamma configured, the smoothing weight in
  use until the first tick is the attribute's initial value \<open>1 / 16\<close>, and the first
  refresh of alpha computes with it. (The constructor's own initialiser of \<open>m_g\<close>,
  0.625, is overwritten by the attribute system before any tick.)
\<close>

theorem default_gamma_at_first_update:
  fixes t :: "('f, 'e, 'w::len word, 'k) C3Tunnel"
  assumes "CreateObject recorder h (cfg\<lparr>Gamma := None\<rparr>) = Inr t" and "Op_Update \<notin> set ops"
  shows "m_g (run env ops t) = Finite (1 / 16) \<and>
         m_alpha (UpdateInfo env (run env ops t)) =
           dadd (dmul (dsub (Finite 1) (Finite (1 / 16))) (Finite 1))
             (dmul (Finite (1 / 16)) (GetMarkedRatio env (m_ecnRecorder (run env ops t))))"
proof -
  have gamma: "m_g (run env ops t) = Finite (1 / 16)"
    and alpha: "m_alpha (run env ops t) = Finite 1"
    using CreateObject_Inr(1,4) [OF assms(1)] run_before_first_tick [OF assms(2), of env t]
    by simp_all
  show ?thesis
    by (simp only: UpdateInfo_m_alpha gamma alpha)
qed

theorem default_gamma_at_first_update_witness:
  "CreateObject (Finite (1 / 4), 500) example_heap (no_attributes\<lparr>Gamma := None\<rparr>) =
     Inr (example_created (Finite (1 / 4), 500)) \<and>
   Op_Update \<notin> set [Op_DoInitialize, Op_Forward 1500] \<and>
   m_g (run example_env [Op_DoInitialize, Op_Forward 1500]
     (example_created (Finite (1 / 4), 500))) = Finite (1 / 16) \<and>
   m_alpha (UpdateInfo example_env (run example_env [Op_DoInitialize, Op_Forward 1500]
     (example_created (Finite (1 / 4), 500)))) = Finite (61 / 64)"
proof -
  have created: "CreateObject (Finite (1 / 4), 500) example_heap (no_attributes\<lparr>Gamma := None\<rparr>) =
      Inr (example_created (Finite (1 / 4), 500))"
    using example_created_Inr [of "(Finite (1 / 4), 500)"] by (simp add: no_attributes_def)
  have quiet: "Op_Update \<notin> set [Op_DoInitialize, Op_Forward 1500]"
    by simp
  have ratio: "GetMarkedRatio example_env
      (m_ecnRecorder (run example_env [Op_DoInitialize, Op_Forward 1500]
        (example_created (Finite (1 / 4), 500)))) = Finite (1 / 4)"
    using run_before_first_tick [OF quiet, of example_env "example_created (Finite (1 / 4), 500)"]
      CreateObject_Inr(3) [OF example_created_Inr [of "(Finite (1 / 4), 500)"]]
    by (simp add: example_env_reads)
  from default_gamma_at_first_update [OF created quiet, of example_env] created quiet
  show ?thesis
    by (simp only: ratio example_first_refresh simp_thms)
qed

text \<open>
  C10. From construction until the first tick, alpha is 1. So at a first tick whose
  marked ratio lies in \<open>[0, 1]\<close> the factor \<open>1 - alpha / 2\<close> applied to \<open>prevRate\<close>
  lies in \<open>[1 / 2, 1]\<close>, and with a marked ratio of 1 and marked bytes the candidate
  is the data rate made from half of \<open>prevRate\<close>.
\<close>

theorem initial_alpha_is_one:
  fixes t :: "('f, 'e, 'w::len word, 'k) C3Tunnel"
  assumes "CreateObject recorder h cfg = Inr t" and "Op_Update \<notin> set ops"
  shows "m_alpha (run env ops t) = Finite 1 \<and>
         (\<forall>r. GetMarkedRatio env (m_ecnRecorder (run env ops t)) = Finite r \<and> 0 \<le> r \<and> r \<le> 1 \<longrightarrow>
            (\<exists>f. dsub (Finite 1) (ddiv (m_alpha (UpdateInfo env (run env ops t))) (Finite 2)) =
                    Finite f \<and> 1 / 2 \<le> f \<and> f \<le> 1)) \<and>
         (GetMarkedRatio env (m_ecnRecorder (run env ops t)) = Finite 1 \<and>
          0 < GetMarkedBytes env (m_ecnRecorder (run env ops t)) \<longrightarrow>
            m_rateThresh (UpdateRate env (UpdateInfo env (run env ops t))) =
              DataRate_of_double env
                (dmul (Finite (1 / 2))
                   (ddiv (double_of_nat (unat (m_sentBytes (run env ops t) * 8)))
                      (GetSeconds (m_interval (run env ops t))))))"
proof -
  let ?s = "run env ops t"
  let ?r = "GetMarkedRatio env (m_ecnRecorder ?s)"
  have alpha: "m_alpha ?s = Finite 1"
    using CreateObject_Inr(1) [OF assms(1)] run_before_first_tick [OF assms(2), of env t]
    by simp
  obtain g v where g: "m_g ?s = Finite g" "0 \<le> g" "g \<le> 1" "g = round_value v"
    using CreateObject_Inr(5) [OF assms(1)] run_before_first_tick [OF assms(2), of env t]
    by auto
  have range: "\<exists>f. dsub (Finite 1) (ddiv (m_alpha (UpdateInfo env ?s)) (Finite 2)) = Finite f \<and>
      1 / 2 \<le> f \<and> f \<le> 1"
    if ratio: "?r = Finite r" and r0: "0 \<le> r" and r1: "r \<le> 1" for r
  proof -
    obtain a1 where a1: "dadd (dmul (dsub (Finite 1) (Finite g)) (Finite 1))
        (dmul (Finite g) (Finite r)) = Finite a1" "0 \<le> a1" "a1 \<le> 1"
      using alpha_refresh_closed [of 1 g r] g(2,3) r0 r1 by auto
    have "m_alpha (UpdateInfo env ?s) = Finite a1"
      by (simp only: UpdateInfo_m_alpha alpha g(1) ratio a1(1))
    then show ?thesis
      using decrease_factor_range [OF a1(2,3)] by simp
  qed
  have thresh: "m_rateThresh (UpdateRate env (UpdateInfo env ?s)) =
      DataRate_of_double env
        (dmul (Finite (1 / 2))
           (ddiv (double_of_nat (unat (m_sentBytes ?s * 8))) (GetSeconds (m_interval ?s))))"
    if "?r = Finite 1" and "0 < GetMarkedBytes env (m_ecnRecorder ?s)"
  proof -
    have "m_alpha (UpdateInfo env ?s) = Finite 1"
      using alpha_refresh_all_marked [OF g(4,2,3)]
      by (simp only: UpdateInfo_m_alpha alpha g(1) that(1))
    moreover have "dsub (Finite 1) (ddiv (Finite 1) (Finite 2)) = Finite (1 / 2)"
      using round_to_double_dyadic [of 1 1] by (simp add: dsub_def)
    ultimately show ?thesis
      using that(2)
      by (simp add: UpdateRate_m_rateThresh UpdateInfo_unchanged prevRate_UpdateInfo prevRate_def
          del: dadd.simps dmul.simps ddiv.simps)
  qed
  show ?thesis
    using alpha range thresh by blast
qed

theorem initial_alpha_is_one_witness:
  "CreateObject (Finite (1 / 4), 500) example_heap no_attributes =
     Inr (example_created (Finite (1 / 4), 500)) \<and>
   CreateObject (Finite 1, 500) example_heap no_attributes = Inr (example_created (Finite 1, 500)) \<and>
   Op_Update \<notin> set [Op_DoInitialize, Op_Forward 1500] \<and>
   m_alpha (run example_env [Op_DoInitialize, Op_Forward 1500]
     (example_created (Finite (1 / 4), 500))) = Finite 1 \<and>
   GetMarkedRatio example_env (m_ecnRecorder (run example_env [Op_DoInitialize, Op_Forward 1500]
     (example_created (Finite (1 / 4), 500)))) = Finite (1 / 4) \<and>
   (\<exists>f. dsub (Finite 1) (ddiv (m_alpha (UpdateInfo example_env
           (run example_env [Op_DoInitialize, Op_Forward 1500]
             (example_created (Finite (1 / 4), 500))))) (Finite 2)) = Finite f \<and>
        1 / 2 \<le> f \<and> f \<le> 1) \<and>
   GetMarkedRatio example_env (m_ecnRecorder (run example_env [Op_DoInitialize, Op_Forward 1500]
     (example_created (Finite 1, 500)))) = Finite 1 \<and>
   0 < GetMarkedBytes example_env (m_ecnRecorder (run example_env [Op_DoInitialize, Op_Forward 1500]
     (example_created (Finite 1, 500)))) \<and>
   m_rateThresh (UpdateRate example_env (UpdateInfo example_env
       (run example_env [Op_DoInitialize, Op_Forward 1500] (example_created (Finite 1, 500))))) =
     60000000"
proof -
  have quiet: "Op_Update \<notin> set [Op_DoInitialize, Op_Forward 1500]"
    by simp
  have fields: "m_ecnRecorder (run example_env [Op_DoInitialize, Op_Forward 1500]
        (example_created recorder)) = recorder"
      "m_interval (run example_env [Op_DoInitialize, Op_Forward 1500]
        (example_created recorder)) = 100000"
      "m_sentBytes (run example_env [Op_DoInitialize, Op_Forward 1500]
        (example_created recorder)) = 1500" for recorder
    by (simp_all add: example_created_def CreateObject_no_attributes C3Tunnel_ctor_def
        DoInitialize_def Forward_def Time_100us_def)
  have quarter: "GetMarkedRatio example_env
      (m_ecnRecorder (run example_env [Op_DoInitialize, Op_Forward 1500]
        (example_created (Finite (1 / 4), 500)))) = Finite (1 / 4)"
    by (simp add: fields example_env_reads del: run.simps)
  from initial_alpha_is_one [OF example_created_Inr [of "(Finite (1 / 4), 500)"] quiet, of example_env]
  have first: "m_alpha (run example_env [Op_DoInitialize, Op_Forward 1500]
        (example_created (Finite (1 / 4), 500))) = Finite 1"
    and range: "\<forall>r. GetMarkedRatio example_env
        (m_ecnRecorder (run example_env [Op_DoInitialize, Op_Forward 1500]
          (example_created (Finite (1 / 4), 500)))) = Finite r \<and> 0 \<le> r \<and> r \<le> 1 \<longrightarrow>
        (\<exists>f. dsub (Finite 1) (ddiv (m_alpha (UpdateInfo example_env
           (run example_env [Op_DoInitialize, Op_Forward 1500]
             (example_created (Finite (1 / 4), 500))))) (Finite 2)) = Finite f \<and>
        1 / 2 \<le> f \<and> f \<le> 1)"
    by blast+
  from spec [OF range, of "1 / 4"] quarter
  have factor: "\<exists>f. dsub (Finite 1) (ddiv (m_alpha (UpdateInfo example_env
           (run example_env [Op_DoInitialize, Op_Forward 1500]
             (example_created (Finite (1 / 4), 500))))) (Finite 2)) = Finite f \<and>
        1 / 2 \<le> f \<and> f \<le> 1"
    by simp
  from initial_alpha_is_one [OF example_created_Inr [of "(Finite 1, 500)"] quiet, of example_env]
  have thresh: "m_rateThresh (UpdateRate example_env (UpdateInfo example_env
       (run example_env [Op_DoInitialize, Op_Forward 1500] (example_created (Finite 1, 500))))) =
     60000000"
    by (simp add: fields example_env_reads example_first_tick_rate
        del: run.simps dadd.simps dmul.simps ddiv.simps)
  from first quarter factor thresh example_created_Inr quiet
  show ?thesis
    by (simp add: fields example_env_reads del: run.simps)
qed

end
